theory Spec2Isabelle
  imports Complex_Main
begin

chapter \<open>PTMCMCSampler: the parallel-tempering sampling engine\<close>

text \<open>
  A shallow embedding of \<^verbatim>\<open>PTMCMCSampler/PTMCMCSampler.py\<close> (class \<^verbatim>\<open>PTSampler\<close>).
  Each method is a HOL function over the fields it reads and writes; exceptions are values
  of type \<open>error\<close>; numpy floats are reals, extended by the IEEE specials where a method
  can meet them.
\<close>

section \<open>Python values\<close>

datatype error =
  Exception | ValueError | AttributeError | ZeroDivisionError | IndexError | KeyError
  | TypeError | UnboundLocalError | LinAlgError

text \<open>\<^verbatim>\<open>range(a, b)\<close> over Python integers.\<close>

definition py_range :: "int \<Rightarrow> int \<Rightarrow> int list" where
  "py_range a b = [a..b - 1]"

text \<open>
  \<^verbatim>\<open>range(a, b, step)\<close>: a zero step raises \<^verbatim>\<open>ValueError\<close>; a positive step counts up
  to, a negative one down to, but not including \<open>b\<close>.
\<close>

definition py_range3 :: "int \<Rightarrow> int \<Rightarrow> int \<Rightarrow> error + int list" where
  "py_range3 a b step =
     (if step = 0 then Inl ValueError
      else if 0 < step
      then Inr (map (\<lambda>k. a + int k * step) [0..<nat ((b - a + step - 1) div step)])
      else Inr (map (\<lambda>k. a + int k * step) [0..<nat ((a - b - step - 1) div (- step))]))"

text \<open>\<^verbatim>\<open>xs[i]\<close>: a negative index counts from the end, an index out of range raises.\<close>

definition py_index :: "'a list \<Rightarrow> int \<Rightarrow> error + 'a" where
  "py_index xs i =
     (let n = int (List.length xs); j = (if i < 0 then i + n else i)
      in if 0 \<le> j \<and> j < n then Inr (xs ! nat j) else Inl IndexError)"

text \<open>\<^verbatim>\<open>xs[a:b]\<close>: negative bounds count from the end, then both are clipped to the list.\<close>

definition py_bound :: "int \<Rightarrow> int \<Rightarrow> nat" where
  "py_bound n i = nat (max 0 (min n (if i < 0 then i + n else i)))"

definition py_slice :: "'a list \<Rightarrow> int \<Rightarrow> int \<Rightarrow> 'a list" where
  "py_slice xs a b =
     (let n = int (List.length xs); lo = py_bound n a; hi = py_bound n b
      in take (hi - lo) (drop lo xs))"

text \<open>\<^verbatim>\<open>int(a / b)\<close> for integers \<open>a\<close> and \<open>b \<noteq> 0\<close>: the quotient, truncated towards zero.\<close>

definition py_int_div :: "int \<Rightarrow> int \<Rightarrow> int" where
  "py_int_div a b = sgn a * sgn b * (\<bar>a\<bar> div \<bar>b\<bar>)"

subsection \<open>Floats\<close>

text \<open>
  A float is a real number or one of the IEEE specials. Rounding and overflow of finite
  values are not modelled: finite arithmetic is exact. The operations below follow IEEE 754
  on the specials, as Python and numpy do (numpy warns where Python would raise, and goes on).
\<close>

datatype xreal = NInf | Fin real | PInf | NaN

fun xneg :: "xreal \<Rightarrow> xreal" where
  "xneg NInf = PInf"
| "xneg (Fin a) = Fin (- a)"
| "xneg PInf = NInf"
| "xneg NaN = NaN"

fun xadd :: "xreal \<Rightarrow> xreal \<Rightarrow> xreal" where
  "xadd NaN y = NaN"
| "xadd x NaN = NaN"
| "xadd (Fin a) (Fin b) = Fin (a + b)"
| "xadd (Fin a) y = y"
| "xadd x (Fin b) = x"
| "xadd PInf PInf = PInf"
| "xadd NInf NInf = NInf"
| "xadd PInf NInf = NaN"
| "xadd NInf PInf = NaN"

definition xsub :: "xreal \<Rightarrow> xreal \<Rightarrow> xreal" where
  "xsub x y = xadd x (xneg y)"

text \<open>The sign of a float, for the product with an infinity.\<close>

fun xsgn :: "xreal \<Rightarrow> real" where
  "xsgn NInf = - 1"
| "xsgn (Fin a) = sgn a"
| "xsgn PInf = 1"
| "xsgn NaN = 0"

fun xmul :: "xreal \<Rightarrow> xreal \<Rightarrow> xreal" where
  "xmul NaN y = NaN"
| "xmul x NaN = NaN"
| "xmul (Fin a) (Fin b) = Fin (a * b)"
| "xmul x y =
     (if xsgn x * xsgn y = 0 then NaN else if 0 < xsgn x * xsgn y then PInf else NInf)"

text \<open>\<^verbatim>\<open>x > y\<close>: false as soon as one side is nan.\<close>

fun xgt :: "xreal \<Rightarrow> xreal \<Rightarrow> bool" where
  "xgt NaN y = False"
| "xgt x NaN = False"
| "xgt (Fin a) (Fin b) = (b < a)"
| "xgt PInf y = (y \<noteq> PInf)"
| "xgt x NInf = (x \<noteq> NInf)"
| "xgt x y = False"

text \<open>
  \<^verbatim>\<open>x / y\<close> on numpy floats: a zero divisor gives an infinity or nan where HOL gives zero
  (the sign of a zero is not represented; a zero divisor counts as positive).
\<close>

fun xdiv :: "xreal \<Rightarrow> xreal \<Rightarrow> xreal" where
  "xdiv NaN y = NaN"
| "xdiv x NaN = NaN"
| "xdiv (Fin a) (Fin b) =
     (if b \<noteq> 0 then Fin (a / b) else if a = 0 then NaN else if 0 < a then PInf else NInf)"
| "xdiv (Fin a) y = Fin 0"
| "xdiv x (Fin b) = (if 0 \<le> xsgn x * sgn b \<and> (b \<noteq> 0 \<or> x = PInf) then PInf else NInf)"
| "xdiv x y = NaN"

text \<open>\<^verbatim>\<open>x ** n\<close> for a natural exponent: \<^verbatim>\<open>x ** 0\<close> is one for every \<open>x\<close>, nan included.\<close>

fun xpow :: "xreal \<Rightarrow> nat \<Rightarrow> xreal" where
  "xpow x 0 = Fin 1"
| "xpow x (Suc n) = xmul x (xpow x n)"

fun np_exp :: "xreal \<Rightarrow> xreal" where
  "np_exp NInf = Fin 0"
| "np_exp (Fin a) = Fin (exp a)"
| "np_exp PInf = PInf"
| "np_exp NaN = NaN"

text \<open>
  \<^verbatim>\<open>np.log(u)\<close>: minus infinity at zero and nan below, where the logarithm of HOL has
  other values.
\<close>

definition np_log :: "real \<Rightarrow> xreal" where
  "np_log u = (if u < 0 then NaN else if u = 0 then NInf else Fin (ln u))"

section \<open>Proposal cycle\<close>

text \<open>
  A proposal object is opaque to the sampler except for its \<^verbatim>\<open>__name__\<close>. The fields of
  \<^verbatim>\<open>self\<close> that the registration code touches are \<^verbatim>\<open>propCycle\<close>, \<^verbatim>\<open>jumpDict\<close>,
  \<^verbatim>\<open>save_jump_stats\<close> and \<^verbatim>\<open>outDir\<close>. \<^verbatim>\<open>__init__\<close> creates \<^verbatim>\<open>propCycle\<close> and
  \<^verbatim>\<open>jumpDict\<close> but not \<^verbatim>\<open>save_jump_stats\<close>, which only \<^verbatim>\<open>initialize\<close> assigns: the
  attribute is \<open>None\<close> while it does not exist. \<open>jump_files\<close> lists the statistics files
  opened with mode \<^verbatim>\<open>"w"\<close>, in order.
\<close>

datatype 'k proposal = Proposal (fname: string) (kernel: 'k)

record 'k cycle_state =
  propCycle :: "'k proposal list"
  jumpDict :: "string \<rightharpoonup> int \<times> int"
  save_jump_stats :: "bool option"
  outDir :: string
  jump_files :: "string list"

text \<open>Lines 131-132 of \<^verbatim>\<open>__init__\<close>.\<close>

definition PTSampler_init :: "string \<Rightarrow> 'k cycle_state" where
  "PTSampler_init dir =
     \<lparr>propCycle = [], jumpDict = Map.empty, save_jump_stats = None, outDir = dir,
      jump_files = []\<rparr>"

text \<open>
  \<^verbatim>\<open>addProposalToCycle(func, weight)\<close>. An exception does not undo the mutations made
  before it, so the result is the error raised, if any, together with the state left behind.
\<close>

definition addProposalToCycle ::
  "'k proposal \<Rightarrow> int \<Rightarrow> 'k cycle_state \<Rightarrow> error option \<times> 'k cycle_state" where
  "addProposalToCycle func weight st =
     (let length = int (List.length (propCycle st)) in
      if weight = 0 then (None, st)
      else
        let st1 = st\<lparr>propCycle :=
                    fold (\<lambda>ii cyc. cyc @ [func]) (py_range length (length + weight))
                      (propCycle st)\<rparr>
        in if fname func \<notin> dom (jumpDict st1) then
             let st2 = st1\<lparr>jumpDict := (jumpDict st1)(fname func \<mapsto> (0, 0))\<rparr>
             in (case save_jump_stats st2 of
                   None \<Rightarrow> (Some AttributeError, st2)
                 | Some flag \<Rightarrow>
                     if flag
                     then (None, st2\<lparr>jump_files := jump_files st2 @
                                   [outDir st2 @ ''/'' @ fname func @ ''_jump.txt'']\<rparr>)
                     else (None, st2))
           else (None, st1))"

text \<open>
  \<^verbatim>\<open>initialize_jump_proposals(weights, initalize_jump_proposal_kwargs)\<close>. The dictionary
  \<^verbatim>\<open>weights\<close> is an association list in insertion order. The module \<^verbatim>\<open>proposals\<close> is not
  part of the sources: \<open>prop\<close> maps the attribute names it has to their constructors, and
  \<open>dflt\<close> stands for \<^verbatim>\<open>default_weights()\<close>.
\<close>

fun register_keys ::
  "(string \<rightharpoonup> ('a option \<Rightarrow> 'k proposal)) \<Rightarrow> (string \<times> int) list \<Rightarrow> (string \<rightharpoonup> 'a) \<Rightarrow>
   string list \<Rightarrow> 'k cycle_state \<Rightarrow> error option \<times> 'k cycle_state" where
  "register_keys prop weights kw [] st = (None, st)"
| "register_keys prop weights kw (key # keys) st =
     (case prop key of
        None \<Rightarrow> (Some AttributeError, st)
      | Some name \<Rightarrow>
          let kwargs = kw key in
          if key \<noteq> ''DifferentialEvolution'' then
            (case map_of weights key of
               None \<Rightarrow> (Some KeyError, st)
             | Some w \<Rightarrow>
                 (case addProposalToCycle (name kwargs) w st of
                    (Some e, st') \<Rightarrow> (Some e, st')
                  | (None, st') \<Rightarrow> register_keys prop weights kw keys st'))
          else register_keys prop weights kw keys st)"

definition effective_weights :: "(string \<times> int) list \<Rightarrow> (string \<times> int) list \<Rightarrow> (string \<times> int) list" where
  "effective_weights dflt weights = (if List.length weights = 0 then dflt else weights)"

definition initialize_jump_proposals ::
  "(string \<rightharpoonup> ('a option \<Rightarrow> 'k proposal)) \<Rightarrow> (string \<times> int) list \<Rightarrow> (string \<times> int) list \<Rightarrow>
   (string \<rightharpoonup> 'a) \<Rightarrow> 'k cycle_state \<Rightarrow> error option \<times> 'k cycle_state" where
  "initialize_jump_proposals prop dflt weights kw st =
     (let weights = effective_weights dflt weights in
      if map fst weights = [''DifferentialEvolution''] then (Some Exception, st)
      else register_keys prop weights kw (map fst weights) st)"

text \<open>What the registration of one key of \<^verbatim>\<open>weights\<close> adds to the cycle.\<close>

definition registered ::
  "(string \<rightharpoonup> ('a option \<Rightarrow> 'k proposal)) \<Rightarrow> (string \<times> int) list \<Rightarrow> (string \<rightharpoonup> 'a) \<Rightarrow>
   string \<Rightarrow> 'k proposal list" where
  "registered prop weights kw key =
     (if key = ''DifferentialEvolution'' then []
      else replicate (nat (the (map_of weights key))) (the (prop key) (kw key)))"

text \<open>
  \<^verbatim>\<open>initialize\<close>, as far as the proposal cycle is concerned: line 238 stores
  \<^verbatim>\<open>save_jump_stats\<close>, line 305 registers the configured proposals, lines 308-309 check the
  length of the cycle. The shuffle that follows does not change \<^verbatim>\<open>propCycle\<close>.
\<close>

definition initialize ::
  "(string \<rightharpoonup> ('a option \<Rightarrow> 'k proposal)) \<Rightarrow> (string \<times> int) list \<Rightarrow> (string \<times> int) list \<Rightarrow>
   (string \<rightharpoonup> 'a) \<Rightarrow> bool \<Rightarrow> 'k cycle_state \<Rightarrow> error option \<times> 'k cycle_state" where
  "initialize prop dflt weights kw sjs st =
     (let st0 = st\<lparr>save_jump_stats := Some sjs\<rparr> in
      case initialize_jump_proposals prop dflt weights kw st0 of
        (Some e, st') \<Rightarrow> (Some e, st')
      | (None, st') \<Rightarrow>
          if List.length (propCycle st') = 0 then (Some ValueError, st') else (None, st'))"

section \<open>Temperature ladder\<close>

text \<open>
  \<^verbatim>\<open>temperatureLadder(Tmin, Tmax=None, tstep=None)\<close>, with the fields \<^verbatim>\<open>nchain\<close> and
  \<^verbatim>\<open>ndim\<close> of \<^verbatim>\<open>self\<close> as the first two arguments. \<^verbatim>\<open>Tmin\<close> and \<^verbatim>\<open>Tmax\<close> are
  Python numbers, so \<^verbatim>\<open>Tmax / Tmin\<close> and \<^verbatim>\<open>2 / self.ndim\<close> raise on a zero divisor; the
  rest is numpy arithmetic.
\<close>

definition ladder_tstep :: "nat \<Rightarrow> nat \<Rightarrow> real \<Rightarrow> real option \<Rightarrow> xreal option \<Rightarrow> error + xreal" where
  "ladder_tstep nchain ndim Tmin Tmax tstep =
     (case tstep of
        Some t \<Rightarrow> Inr t
      | None \<Rightarrow>
          (case Tmax of
             None \<Rightarrow>
               if ndim = 0 then Inl ZeroDivisionError else Inr (Fin (1 + sqrt (2 / real ndim)))
           | Some Tm \<Rightarrow>
               if Tmin = 0 then Inl ZeroDivisionError
               else Inr (np_exp (xdiv (np_log (Tm / Tmin)) (Fin (real (nchain - 1)))))))"

definition temperatureLadder ::
  "nat \<Rightarrow> nat \<Rightarrow> real \<Rightarrow> real option \<Rightarrow> xreal option \<Rightarrow> error + xreal list" where
  "temperatureLadder nchain ndim Tmin Tmax tstep =
     (if nchain > 1 then
        (case ladder_tstep nchain ndim Tmin Tmax tstep of
           Inl e \<Rightarrow> Inl e
         | Inr ts \<Rightarrow> Inr (map (\<lambda>ii. xmul (Fin Tmin) (xpow ts ii)) [0..<nchain]))
      else Inr [Fin 1])"

text \<open>A ladder is strictly increasing when every entry exceeds the ones before it.\<close>

definition increasing :: "xreal list \<Rightarrow> bool" where
  "increasing l = sorted_wrt (\<lambda>a b. xgt b a) l"

section \<open>Metropolis stage of one step\<close>

text \<open>
  The chain context adds the accepted-step counter to the cycle state. The stage is lines
  627-664 of \<^verbatim>\<open>PTMCMCOneStep\<close>. Its arguments besides the state: the callables \<^verbatim>\<open>logp\<close>
  and \<^verbatim>\<open>logl\<close>, the temperature, the resume data, the triple \<open>(y, qxy, jump_name)\<close> that
  \<^verbatim>\<open>_jump\<close> returned, the draw of \<^verbatim>\<open>np.random.rand()\<close>, the iteration and the current
  \<open>(p0, lnlike0, lnprob0)\<close>. It returns the error raised, if any, the state, the new triple
  and the points at which \<^verbatim>\<open>logl\<close> was called. The local \<^verbatim>\<open>newlnlike\<close> is \<open>None\<close> while
  unassigned. The rows of \<^verbatim>\<open>resumechain\<close> are taken to be finite.
\<close>

record 'k chain_state = "'k cycle_state" +
  naccepted :: real

type_synonym point = "real list"

definition PTMCMCOneStep_jump ::
  "(point \<Rightarrow> xreal) \<Rightarrow> (point \<Rightarrow> xreal) \<Rightarrow> xreal \<Rightarrow> bool \<Rightarrow> int \<Rightarrow> real list list \<Rightarrow>
   point \<times> xreal \<times> string \<Rightarrow> real \<Rightarrow> int \<Rightarrow> point \<times> xreal \<times> xreal \<Rightarrow> 'k chain_state \<Rightarrow>
   error option \<times> 'k chain_state \<times> (point \<times> xreal \<times> xreal) \<times> point list" where
  "PTMCMCOneStep_jump logp logl temp resume resumeLength resumechain jump rand iter cur st =
     (if resume \<and> resumeLength > 0 \<and> iter < resumeLength then
        (case py_index resumechain iter of
           Inl e \<Rightarrow> (Some e, st, cur, [])
         | Inr row \<Rightarrow>
             (case (py_index row (- 3), py_index row (- 4), py_index row (- 2)) of
                (Inr l, Inr p, Inr a) \<Rightarrow>
                  (None, st\<lparr>naccepted := real_of_int iter * a\<rparr>,
                   (py_slice row 0 (- 4), Fin l, Fin p), [])
              | _ \<Rightarrow> (Some IndexError, st, cur, [])))
      else
        (case jump of (y, qxy, jump_name) \<Rightarrow>
         case cur of (p0, lnlike0, lnprob0) \<Rightarrow>
         case jumpDict st jump_name of
           None \<Rightarrow> (Some KeyError, st, cur, [])
         | Some (nprop, nacc) \<Rightarrow>
             let st1 = st\<lparr>jumpDict := (jumpDict st)(jump_name \<mapsto> (nprop + 1, nacc))\<rparr>;
                 lp = logp y;
                 (newlnlike, newlnprob, calls) =
                   (if lp = NInf then (None, NInf, [])
                    else let l = logl y
                         in (Some l, xadd (xmul (xdiv (Fin 1) temp) l) lp, [y]));
                 diff = xadd (xsub newlnprob lnprob0) qxy
             in if xgt diff (np_log rand) then
                  (case newlnlike of
                     None \<Rightarrow> (Some UnboundLocalError, st1, cur, calls)
                   | Some l \<Rightarrow>
                       (None,
                        st1\<lparr>naccepted := naccepted st1 + 1,
                            jumpDict := (jumpDict st1)(jump_name \<mapsto> (nprop + 1, nacc + 1))\<rparr>,
                        (y, l, newlnprob), calls))
                else (None, st1, cur, calls)))"

section \<open>Swap coordinator\<close>

text \<open>
  \<^verbatim>\<open>PTswap(p0, lnlike0, lnprob0, iter)\<close>. The communicator is replaced by what it delivers
  to this process during the call (\<open>swap_io\<close>) and by the list of messages the process
  sends. \<open>probe_in\<close> is the likelihood pending from the colder neighbour under tag 18, if
  \<^verbatim>\<open>Iprobe\<close> finds one. A blocking receive is taken to return: the result describes the
  call once the neighbour has answered.
\<close>

record swap_env =
  MPIrank :: int
  nchain :: int
  Tskip :: int
  ladder :: "xreal list"
  temp :: xreal

datatype payload = PFloat xreal | PInt int | PVec point

datatype msg = Msg (dest: int) (tag: nat) (body: payload)

record swap_io =
  decision_in :: int
  lnlike_in :: xreal
  p_in :: point
  probe_in :: "xreal option"
  rand :: real

definition swapReturn :: "bool \<Rightarrow> bool \<Rightarrow> int" where
  "swapReturn swapProposed swapAccepted =
     (if swapProposed then if swapAccepted then 2 else 1 else 0)"

definition PTswap ::
  "swap_env \<Rightarrow> (point \<Rightarrow> xreal) \<Rightarrow> swap_io \<Rightarrow> point \<times> xreal \<times> xreal \<Rightarrow> int \<Rightarrow>
   error + int \<times> (point \<times> xreal \<times> xreal) \<times> msg list" where
  "PTswap env logp io cur iter =
     (case cur of (p0, lnlike0, lnprob0) \<Rightarrow>
      if Tskip env = 0 then Inl ZeroDivisionError
      else if iter mod Tskip env = 0 \<and> MPIrank env < nchain env - 1 then
        let sent = [Msg (MPIrank env + 1) 18 (PFloat lnlike0)];
            swapAccepted = (decision_in io \<noteq> 0)
        in if swapAccepted then
             let lnlike0' = lnlike_in io;
                 pnew = p_in io;
                 lnprob0' = xadd (xmul (xdiv (Fin 1) (temp env)) lnlike0') (logp pnew)
             in Inr (swapReturn True swapAccepted, (pnew, lnlike0', lnprob0'),
                     sent @ [Msg (MPIrank env + 1) 19 (PVec p0)])
           else Inr (swapReturn True swapAccepted, cur, sent)
      else if MPIrank env > 0 then
        (case probe_in io of
           None \<Rightarrow> Inr (swapReturn False False, cur, [])
         | Some newlnlike \<Rightarrow>
             (case (py_index (ladder env) (MPIrank env - 1), py_index (ladder env) (MPIrank env)) of
                (Inr Tcold, Inr Tself) \<Rightarrow>
                  let logChainSwap =
                        xmul (xsub (xdiv (Fin 1) Tcold) (xdiv (Fin 1) Tself))
                          (xsub lnlike0 newlnlike);
                      swapAccepted = xgt logChainSwap (np_log (rand io));
                      sent = [Msg (MPIrank env - 1) 888 (PInt (if swapAccepted then 1 else 0))]
                  in if swapAccepted then
                       let pnew = p_in io;
                           lnprob0' = xadd (xmul (xdiv (Fin 1) (temp env)) newlnlike) (logp pnew)
                       in Inr (swapReturn False swapAccepted, (pnew, newlnlike, lnprob0'),
                               sent @ [Msg (MPIrank env - 1) 18 (PFloat lnlike0),
                                       Msg (MPIrank env - 1) 19 (PVec p0)])
                     else Inr (swapReturn False swapAccepted, cur, sent)
              | _ \<Rightarrow> Inl IndexError))
      else Inr (swapReturn False False, cur, []))"

section \<open>Covariance estimator\<close>

text \<open>
  \<^verbatim>\<open>_updateRecursive(iter, mem, chain_ind)\<close> on the running moments \<^verbatim>\<open>mu\<close>, \<^verbatim>\<open>M2\<close> and
  the covariance \<^verbatim>\<open>cov\<close>; the buffer \<^verbatim>\<open>_AMbuffer\<close> (chain, iteration, parameter),
  \<^verbatim>\<open>ndim\<close> and the parameter groups are arguments. The buffer is allocated with
  \<^verbatim>\<open>Niter + 1\<close> rows of \<^verbatim>\<open>ndim\<close> entries per chain and the method is called with
  \<open>mem \<le> iter \<le> Niter\<close>, so every read of the buffer is in range. \<^verbatim>\<open>mu\<close> and \<^verbatim>\<open>M2\<close> are
  float arrays made by \<^verbatim>\<open>np.zeros\<close>. \<^verbatim>\<open>cov\<close> is the array the caller gave to the
  constructor: the method assigns into it in place, so it keeps its shape and its dtype, and
  \<open>cov_integer\<close> says that the dtype is integral.
\<close>

record moments =
  M2 :: "real list list"
  mu :: "real list"
  cov :: "xreal list list"
  cov_integer :: bool

text \<open>\<^verbatim>\<open>np.outer(u, v)\<close>, the sum of two matrices and the difference of two vectors.\<close>

definition outer :: "real list \<Rightarrow> real list \<Rightarrow> real list list" where
  "outer u v = map (\<lambda>a. map (\<lambda>b. a * b) v) u"

definition mat_add :: "real list list \<Rightarrow> real list list \<Rightarrow> real list list" where
  "mat_add A B = map2 (map2 (+)) A B"

definition vec_sub :: "real list \<Rightarrow> real list \<Rightarrow> real list" where
  "vec_sub u v = map2 (-) u v"

text \<open>The body of the loop over \<^verbatim>\<open>jj\<close>, on the pair \<^verbatim>\<open>(diff, self.mu)\<close>.\<close>

definition mean_step :: "real list \<Rightarrow> int \<Rightarrow> nat \<Rightarrow> real list \<times> real list \<Rightarrow> real list \<times> real list" where
  "mean_step x it jj = (\<lambda>(diff, m).
     let diff' = diff[jj := x ! jj - m ! jj]
     in (diff', m[jj := m ! jj + diff' ! jj / real_of_int it]))"

text \<open>The body of the loop over \<^verbatim>\<open>ii\<close>, on the counter \<^verbatim>\<open>it\<close> and the moments; \<open>x\<close> is the
  row of the buffer read in this round.\<close>

definition accumulate :: "nat \<Rightarrow> real list \<Rightarrow> int \<times> moments \<Rightarrow> int \<times> moments" where
  "accumulate ndim x = (\<lambda>(it, st).
     let diff = replicate ndim 0;
         it = it + 1;
         (diff, m) = fold (mean_step x it) [0..<ndim] (diff, mu st)
     in (it, st\<lparr>mu := m, M2 := mat_add (M2 st) (outer diff (vec_sub x m))\<rparr>))"

text \<open>
  A float stored into an integer array is truncated towards zero. What nan and the
  infinities turn into depends on the platform (numpy warns and goes on): it is the
  parameter \<open>cast\<close>.
\<close>

definition np_trunc :: "real \<Rightarrow> int" where
  "np_trunc v = (if 0 \<le> v then \<lfloor>v\<rfloor> else \<lceil>v\<rceil>)"

fun store_entry :: "bool \<Rightarrow> (xreal \<Rightarrow> int) \<Rightarrow> xreal \<Rightarrow> xreal" where
  "store_entry False cast x = x"
| "store_entry True cast (Fin v) = Fin (of_int (np_trunc v))"
| "store_entry True cast x = Fin (of_int (cast x))"

text \<open>
  \<^verbatim>\<open>target[:, :] = src\<close> for a square matrix \<open>src\<close>: numpy broadcasts a source of one row
  and one column to any target, and otherwise raises \<^verbatim>\<open>ValueError\<close> unless the shapes agree.
  \<open>bcast n i\<close> is the index of the source that position \<open>i\<close> of the target reads.
\<close>

definition bcast :: "nat \<Rightarrow> nat \<Rightarrow> nat" where
  "bcast n i = (if n = 1 then 0 else i)"

definition assign_all ::
  "bool \<Rightarrow> (xreal \<Rightarrow> int) \<Rightarrow> xreal list list \<Rightarrow> xreal list list \<Rightarrow> error + xreal list list" where
  "assign_all integer cast target src =
     (let n = List.length src in
      if (n = 1 \<or> List.length target = n) \<and> (\<forall>row\<in>set target. n = 1 \<or> List.length row = n)
      then Inr (map (\<lambda>i. map (\<lambda>j. store_entry integer cast (src ! bcast n i ! bcast n j))
                           [0..<List.length (target ! i)])
                  [0..<List.length target])
      else Inl ValueError)"

fun finite_x :: "xreal \<Rightarrow> bool" where
  "finite_x (Fin v) = True"
| "finite_x x = False"

text \<open>
  Lines 901-907 for one group: the submatrix of \<^verbatim>\<open>cov\<close> on the indices of the group is
  copied, which raises on an index out of range, and handed to \<^verbatim>\<open>np.linalg.svd\<close>, which
  raises \<^verbatim>\<open>LinAlgError\<close> on a matrix with nan or an infinity. The factors it returns
  otherwise are numpy's and are not modelled.
\<close>

definition svd_group :: "xreal list list \<Rightarrow> nat list \<Rightarrow> error option" where
  "svd_group c grp =
     (if \<exists>i\<in>set grp. \<exists>j\<in>set grp. \<not> (i < List.length c \<and> j < List.length (c ! i))
      then Some IndexError
      else if \<exists>i\<in>set grp. \<exists>j\<in>set grp. \<not> finite_x (c ! i ! j) then Some LinAlgError
      else None)"

definition first_error :: "error option list \<Rightarrow> error option" where
  "first_error es = (case filter (\<lambda>e. e \<noteq> None) es of [] \<Rightarrow> None | e # rest \<Rightarrow> e)"

text \<open>
  The method returns the error raised, if any, and the moments as the call leaves them.
\<close>

definition updateRecursive ::
  "nat list list \<Rightarrow> (xreal \<Rightarrow> int) \<Rightarrow> real list list list \<Rightarrow> nat \<Rightarrow> int \<Rightarrow> int \<Rightarrow> nat \<Rightarrow>
   moments \<Rightarrow> error option \<times> moments" where
  "updateRecursive groups cast AMbuffer ndim iter mem chain_ind st =
     (let it = iter - mem;
          st0 = (if it = 0
                 then st\<lparr>M2 := replicate ndim (replicate ndim 0), mu := replicate ndim 0\<rparr>
                 else st);
          (it, st1) = fold (\<lambda>ii. accumulate ndim (AMbuffer ! chain_ind ! nat (iter - mem + ii)))
                        (py_range 0 mem) (it, st0)
      in case assign_all (cov_integer st1) cast (cov st1)
                (map (map (\<lambda>v. xdiv (Fin v) (Fin (real_of_int (it - 1))))) (M2 st1)) of
           Inl e \<Rightarrow> (Some e, st1)
         | Inr c \<Rightarrow> (first_error (map (svd_group c) groups), st1\<lparr>cov := c\<rparr>))"

text \<open>
  The cold process calls the method at the start of step \<open>iter\<close> when \<open>iter - 1\<close> is a
  positive multiple of \<^verbatim>\<open>covUpdate\<close> (lines 550-551), so the windows follow one another:
  the \<open>j\<close>-th call is \<^verbatim>\<open>_updateRecursive(j * mem, mem, chain_ind)\<close>. An error ends the run.
\<close>

definition feed_windows ::
  "nat list list \<Rightarrow> (xreal \<Rightarrow> int) \<Rightarrow> real list list list \<Rightarrow> nat \<Rightarrow> int \<Rightarrow> nat \<Rightarrow> nat \<Rightarrow>
   moments \<Rightarrow> error option \<times> moments" where
  "feed_windows groups cast AMbuffer ndim mem chain_ind k st =
     fold (\<lambda>j (e, s). case e of
                        Some x \<Rightarrow> (Some x, s)
                      | None \<Rightarrow> updateRecursive groups cast AMbuffer ndim (int j * mem) mem
                                 chain_ind s)
       [1..<Suc k] (None, st)"

text \<open>
  The closed form the estimator is compared with: the sample mean of a sequence of vectors
  and the matrix of \<open>(\<Sum>i. (x\<^sub>i - xbar) (x\<^sub>i - xbar)\<^sup>T) / (N - 1)\<close>.
\<close>

definition batch_mean :: "nat \<Rightarrow> real list list \<Rightarrow> real list" where
  "batch_mean ndim xs = map (\<lambda>a. (\<Sum>x\<leftarrow>xs. x ! a) / real (List.length xs)) [0..<ndim]"

definition batch_cov :: "nat \<Rightarrow> real list list \<Rightarrow> real list list" where
  "batch_cov ndim xs =
     map (\<lambda>a. map (\<lambda>b.
            (\<Sum>x\<leftarrow>xs. (x ! a - batch_mean ndim xs ! a) * (x ! b - batch_mean ndim xs ! b))
              / (real (List.length xs) - 1))
          [0..<ndim])
       [0..<ndim]"

text \<open>
  For the proof: the mean of a quantity over a list of samples, the matrix of the sums of
  products of deviations from the mean, and the invariant that ties the counter and the
  running moments to the samples accumulated so far.
\<close>

definition avg :: "('a \<Rightarrow> real) \<Rightarrow> 'a list \<Rightarrow> real" where
  "avg f ys = (\<Sum>y\<leftarrow>ys. f y) / real (List.length ys)"

definition scatter :: "nat \<Rightarrow> real list list \<Rightarrow> real list list" where
  "scatter ndim xs =
     map (\<lambda>a. map (\<lambda>b.
            (\<Sum>x\<leftarrow>xs. (x ! a - avg (\<lambda>y. y ! a) xs) * (x ! b - avg (\<lambda>y. y ! b) xs)))
          [0..<ndim])
       [0..<ndim]"

text \<open>A matrix of \<open>n\<close> rows and \<open>n\<close> columns.\<close>

definition square :: "nat \<Rightarrow> 'a list list \<Rightarrow> bool" where
  "square n c = (List.length c = n \<and> (\<forall>row\<in>set c. List.length row = n))"

definition welford_inv :: "nat \<Rightarrow> real list list \<Rightarrow> int \<times> moments \<Rightarrow> bool" where
  "welford_inv ndim xs = (\<lambda>(it, st).
     it = int (List.length xs) \<and> mu st = batch_mean ndim xs \<and> M2 st = scatter ndim xs)"

section \<open>Trajectory buffers and the differential-evolution buffer\<close>

text \<open>
  The arrays a process records into. \<^verbatim>\<open>_AMbuffer\<close>, \<^verbatim>\<open>_chain\<close> (chain, sample,
  parameter), \<^verbatim>\<open>_lnlike\<close> and \<^verbatim>\<open>_lnprob\<close> (chain, sample) are allocated by
  \<^verbatim>\<open>initialize\<close> and filled with zeros. \<open>DEbuffer\<close> is \<open>None\<close> until the first update
  replaces the block of zeros that \<^verbatim>\<open>initialize\<close> allocated, and the slice afterwards.
\<close>

record trajectory =
  AMbuffer :: "real list list list"
  DEbuffer :: "real list list option"
  chain_arr :: "real list list list"
  lnlike_arr :: "real list list"
  lnprob_arr :: "real list list"

text \<open>Lines 243-254 of \<^verbatim>\<open>initialize\<close> on the cold process; \<open>N\<close> is \<^verbatim>\<open>int(maxIter / thin)\<close>.\<close>

definition allocate :: "nat \<Rightarrow> nat \<Rightarrow> nat \<Rightarrow> nat \<Rightarrow> trajectory" where
  "allocate n_cold_chains N Niter ndim =
     \<lparr>AMbuffer = replicate n_cold_chains (replicate (Niter + 1) (replicate ndim 0)),
      DEbuffer = None,
      chain_arr = replicate n_cold_chains (replicate N (replicate ndim 0)),
      lnlike_arr = replicate n_cold_chains (replicate N 0),
      lnprob_arr = replicate n_cold_chains (replicate N 0)\<rparr>"

text \<open>Writing one row of a two-level array; an index out of range raises.\<close>

definition set_row :: "'a list list \<Rightarrow> nat \<Rightarrow> int \<Rightarrow> 'a \<Rightarrow> error + 'a list list" where
  "set_row arr c i v =
     (if c < List.length arr \<and> 0 \<le> i \<and> i < int (List.length (arr ! c))
      then Inr (arr[c := (arr ! c)[nat i := v]]) else Inl IndexError)"

text \<open>
  \<^verbatim>\<open>updateChains(p0, lnlike0, lnprob0, iter, chain_ind)\<close>, lines 338-347, for iterations
  \<open>iter \<ge> 0\<close> and a stride \<open>thin > 0\<close>; writing the file is a separate function below.
\<close>

definition updateChains ::
  "int \<Rightarrow> int \<Rightarrow> point \<Rightarrow> real \<Rightarrow> real \<Rightarrow> int \<Rightarrow> nat \<Rightarrow> trajectory \<Rightarrow> error + trajectory" where
  "updateChains rank thin p0 lnlike0 lnprob0 iter chain_ind tr =
     (case (if rank = 0 then set_row (AMbuffer tr) chain_ind iter p0 else Inr (AMbuffer tr)) of
        Inl e \<Rightarrow> Inl e
      | Inr amb \<Rightarrow>
          let tr1 = tr\<lparr>AMbuffer := amb\<rparr> in
          if thin = 0 then Inl ZeroDivisionError
          else if iter mod thin = 0 then
            let ind = py_int_div iter thin in
            (case (set_row (chain_arr tr1) chain_ind ind p0,
                   set_row (lnlike_arr tr1) chain_ind ind lnlike0,
                   set_row (lnprob_arr tr1) chain_ind ind lnprob0) of
               (Inr c, Inr l, Inr p) \<Rightarrow>
                 Inr (tr1\<lparr>chain_arr := c, lnlike_arr := l, lnprob_arr := p\<rparr>)
             | _ \<Rightarrow> Inl IndexError)
          else Inr tr1)"

text \<open>\<^verbatim>\<open>_updateDEbuffer(iter, burn, chain_ind)\<close>.\<close>

definition updateDEbuffer :: "int \<Rightarrow> int \<Rightarrow> nat \<Rightarrow> trajectory \<Rightarrow> error + trajectory" where
  "updateDEbuffer iter burn chain_ind tr =
     (if chain_ind < List.length (AMbuffer tr)
      then Inr (tr\<lparr>DEbuffer := Some (py_slice (AMbuffer tr ! chain_ind) (iter - burn) iter)\<rparr>)
      else Inl IndexError)"

text \<open>Lines 573-575 of \<^verbatim>\<open>PTMCMCOneStep\<close>: the update of the buffer at the start of a step.\<close>

definition PTMCMCOneStep_DE :: "int \<Rightarrow> int \<Rightarrow> int \<Rightarrow> nat \<Rightarrow> trajectory \<Rightarrow> error + trajectory" where
  "PTMCMCOneStep_DE rank burn iter chain_ind tr =
     (if burn = 0 then Inl ZeroDivisionError
      else if (iter - 1) mod burn = 0 \<and> iter - 1 \<noteq> 0 \<and> rank = 0
      then updateDEbuffer (iter - 1) burn chain_ind tr
      else Inr tr)"

text \<open>
  The cold process through the first steps of \<^verbatim>\<open>sample\<close>, as far as the buffers go: line
  479 records the initial point at \<open>i0 = 0\<close>; then each step \<open>iter = 1, 2, \<dots>\<close> first
  updates the buffer of differential evolution when due and last records the point the step
  ended with (line 675). The points are given; likelihood and posterior are not followed
  (zero).
\<close>

fun run_steps :: "int \<Rightarrow> int \<Rightarrow> nat \<Rightarrow> int \<Rightarrow> point list \<Rightarrow> trajectory \<Rightarrow> error + trajectory" where
  "run_steps burn thin chain_ind iter [] tr = Inr tr"
| "run_steps burn thin chain_ind iter (p # ps) tr =
     (case PTMCMCOneStep_DE 0 burn iter chain_ind tr of
        Inl e \<Rightarrow> Inl e
      | Inr tr1 \<Rightarrow>
          (case updateChains 0 thin p 0 0 iter chain_ind tr1 of
             Inl e \<Rightarrow> Inl e
           | Inr tr2 \<Rightarrow> run_steps burn thin chain_ind (iter + 1) ps tr2))"

definition sample_buffers :: "int \<Rightarrow> int \<Rightarrow> point \<Rightarrow> point list \<Rightarrow> trajectory \<Rightarrow> error + trajectory" where
  "sample_buffers burn thin p0 ps tr =
     (case updateChains 0 thin p0 0 0 0 0 tr of
        Inl e \<Rightarrow> Inl e
      | Inr tr1 \<Rightarrow> run_steps burn thin 0 1 ps tr1)"

text \<open>
  The words of the specification: the \<open>n\<close> most recently recorded points of a recorded
  sequence are its last \<open>n\<close> rows.
\<close>

definition most_recent :: "nat \<Rightarrow> 'a list \<Rightarrow> 'a list" where
  "most_recent n rows = drop (List.length rows - n) rows"

section \<open>Trajectory file\<close>

text \<open>
  \<^verbatim>\<open>"%f" % v\<close> needs a number: a numpy array converts only if it holds a single element.
  The text of a formatted number is left open: \<open>fmt d v\<close> stands for \<open>v\<close> written with \<open>d\<close>
  decimals.
\<close>

fun as_scalar :: "real list \<Rightarrow> error + real" where
  "as_scalar [v] = Inr v"
| "as_scalar vs = Inl TypeError"

record file_env =
  f_rank :: int
  f_nchain :: int
  f_ndim :: nat
  isave :: int
  thin :: int
  swapProposed :: int
  nswap_accepted :: int
  f_naccepted :: real

text \<open>
  One round of the loop of \<^verbatim>\<open>_writeToFile(iter)\<close>, lines 828-841: the cells of the row for
  \<open>jj\<close>. \<^verbatim>\<open>self._chain[ind, kk]\<close> indexes the first two axes of the three of \<^verbatim>\<open>_chain\<close>,
  and \<^verbatim>\<open>self._lnprob[ind]\<close> the first of two.
\<close>

definition sequence :: "(error + 'a) list \<Rightarrow> error + 'a list" where
  "sequence rs = foldr (\<lambda>r acc. case r of Inl e \<Rightarrow> Inl e
                   | Inr v \<Rightarrow> (case acc of Inl e \<Rightarrow> Inl e | Inr vs \<Rightarrow> Inr (v # vs))) rs (Inr [])"

definition chain_cell :: "real list list list \<Rightarrow> int \<Rightarrow> int \<Rightarrow> error + real" where
  "chain_cell arr ind kk =
     (case py_index arr ind of
        Inl e \<Rightarrow> Inl e
      | Inr block \<Rightarrow> (case py_index block kk of Inl e \<Rightarrow> Inl e | Inr v \<Rightarrow> as_scalar v))"

definition write_row ::
  "(nat \<Rightarrow> real \<Rightarrow> 'c) \<Rightarrow> file_env \<Rightarrow> trajectory \<Rightarrow> int \<Rightarrow> int \<Rightarrow> error + 'c list" where
  "write_row fmt env tr iter jj =
     (let ind = py_int_div jj (thin env);
          pt_acc = (if f_rank env < f_nchain env - 1 \<and> swapProposed env \<noteq> 0
                    then real_of_int (nswap_accepted env) / real_of_int (swapProposed env)
                    else 1)
      in case sequence (map (\<lambda>kk. chain_cell (chain_arr tr) ind (int kk)) [0..<f_ndim env]) of
           Inl e \<Rightarrow> Inl e
         | Inr params \<Rightarrow>
             (case (py_index (lnprob_arr tr) ind, py_index (lnlike_arr tr) ind) of
                (Inr lps, Inr lls) \<Rightarrow>
                  if iter = 0 then Inl ZeroDivisionError
                  else
                    (case (as_scalar lps, as_scalar lls) of
                       (Inr lp, Inr ll) \<Rightarrow>
                         Inr (map (fmt 22) params @
                              [fmt 6 lp, fmt 6 ll, fmt 6 (f_naccepted env / real_of_int iter),
                               fmt 6 pt_acc])
                     | _ \<Rightarrow> Inl TypeError)
              | _ \<Rightarrow> Inl IndexError))"

text \<open>\<^verbatim>\<open>_writeToFile(iter)\<close>: the rows appended to the chain file, or the first error.\<close>

definition writeToFile ::
  "(nat \<Rightarrow> real \<Rightarrow> 'c) \<Rightarrow> file_env \<Rightarrow> trajectory \<Rightarrow> int \<Rightarrow> error + 'c list list" where
  "writeToFile fmt env tr iter =
     (case py_range3 (iter - isave env) iter (thin env) of
        Inl e \<Rightarrow> Inl e
      | Inr jjs \<Rightarrow> sequence (map (write_row fmt env tr iter) jjs))"

text \<open>Lines 459-463 of \<^verbatim>\<open>sample\<close>: the state a resumed run starts from.\<close>

definition resume_first :: "real list list \<Rightarrow> error + point \<times> real \<times> real" where
  "resume_first resumechain =
     (case py_index resumechain 0 of
        Inl e \<Rightarrow> Inl e
      | Inr row \<Rightarrow>
          (case (py_index row (- 3), py_index row (- 4)) of
             (Inr l, Inr p) \<Rightarrow> Inr (py_slice row 0 (- 4), l, p)
           | _ \<Rightarrow> Inl IndexError))"


section \<open>Properties of the proposal cycle\<close>

lemma fold_snoc_replicate:
  "fold (\<lambda>ii cyc. cyc @ [f]) is cyc = cyc @ replicate (List.length is) f"
proof (induction "is" arbitrary: cyc)
  case Nil
  show ?case by simp
next
  case (Cons i "is")
  show ?case by (simp add: Cons.IH replicate_app_Cons_same)
qed

lemma length_py_range: "List.length (py_range a (a + w)) = nat w"
  by (simp add: py_range_def)

lemma addProposalToCycle_cycle:
  "propCycle (snd (addProposalToCycle f w st)) = propCycle st @ replicate (nat w) f"
  by (simp add: addProposalToCycle_def Let_def fold_snoc_replicate length_py_range
      split: option.splits)

lemma addProposalToCycle_flag_set:
  assumes "save_jump_stats st = Some b"
  shows "fst (addProposalToCycle f w st) = None"
    and "save_jump_stats (snd (addProposalToCycle f w st)) = Some b"
  using assms by (simp_all add: addProposalToCycle_def Let_def)

text \<open>
  Every name in the cycle has an entry in the ledger, and registration keeps it so, also
  when the call ends in an error.
\<close>

lemma addProposalToCycle_ledger:
  assumes "fname ` set (propCycle st) \<subseteq> dom (jumpDict st)"
  shows "fname ` set (propCycle (snd (addProposalToCycle f w st)))
           \<subseteq> dom (jumpDict (snd (addProposalToCycle f w st)))"
proof (cases "w = 0")
  case True
  with assms show ?thesis by (simp add: addProposalToCycle_def)
next
  case False
  have "insert (fname f) (dom (jumpDict st)) \<subseteq> dom (jumpDict (snd (addProposalToCycle f w st)))"
    using False by (auto simp: addProposalToCycle_def Let_def split: option.splits)
  with assms show ?thesis
    unfolding addProposalToCycle_cycle by auto
qed

text \<open>
  C8. For every proposal \<open>f\<close> and every weight \<open>w \<ge> 0\<close>, \<^verbatim>\<open>addProposalToCycle(f, w)\<close>
  appends exactly \<open>w\<close> copies of \<open>f\<close> to the proposal cycle, and it returns without error on
  every sampler on which \<^verbatim>\<open>initialize\<close> has assigned \<^verbatim>\<open>save_jump_stats\<close>; with \<open>w = 0\<close> it
  raises no error on any sampler and leaves the cycle, its length and the acceptance ledger
  as they were (the whole state is unchanged).
\<close>

theorem addProposalToCycle_appends:
  "(0 \<le> w \<longrightarrow>
      propCycle (snd (addProposalToCycle f w st)) = propCycle st @ replicate (nat w) f \<and>
      (save_jump_stats st = Some b \<longrightarrow> fst (addProposalToCycle f w st) = None)) \<and>
   fst (addProposalToCycle f 0 st) = None \<and>
   List.length (propCycle (snd (addProposalToCycle f 0 st))) = List.length (propCycle st) \<and>
   jumpDict (snd (addProposalToCycle f 0 st)) = jumpDict st \<and>
   snd (addProposalToCycle f 0 st) = st"
  by (simp add: addProposalToCycle_cycle addProposalToCycle_flag_set)
    (simp add: addProposalToCycle_def)

theorem addProposalToCycle_appends_witness:
  "(0::int) \<le> 3 \<and>
   addProposalToCycle (Proposal ''AM'' ()) 3
      \<lparr>propCycle = [Proposal ''SCAM'' ()], jumpDict = [''SCAM'' \<mapsto> (0, 0)],
       save_jump_stats = Some False, outDir = ''./chains'', jump_files = []\<rparr>
     = (None,
        \<lparr>propCycle = [Proposal ''SCAM'' (), Proposal ''AM'' (), Proposal ''AM'' (),
                      Proposal ''AM'' ()],
         jumpDict = [''SCAM'' \<mapsto> (0, 0), ''AM'' \<mapsto> (0, 0)],
         save_jump_stats = Some False, outDir = ''./chains'', jump_files = []\<rparr>)
   \<and> fst (addProposalToCycle (Proposal ''AM'' ()) 3
      \<lparr>propCycle = [Proposal ''SCAM'' ()], jumpDict = [''SCAM'' \<mapsto> (0, 0)],
       save_jump_stats = Some False, outDir = ''./chains'', jump_files = []\<rparr>) = None
   \<and> propCycle (snd (addProposalToCycle (Proposal ''AM'' ()) 3
      \<lparr>propCycle = [Proposal ''SCAM'' ()], jumpDict = [''SCAM'' \<mapsto> (0, 0)],
       save_jump_stats = Some False, outDir = ''./chains'', jump_files = []\<rparr>))
     = [Proposal ''SCAM'' (), Proposal ''AM'' (), Proposal ''AM'' (), Proposal ''AM'' ()]"
  using addProposalToCycle_appends [where w = 3 and f = "Proposal ''AM'' ()" and b = False
      and st = "\<lparr>propCycle = [Proposal ''SCAM'' ()], jumpDict = [''SCAM'' \<mapsto> (0, 0)],
        save_jump_stats = Some False, outDir = ''./chains'', jump_files = []\<rparr>"]
  by (simp add: addProposalToCycle_def py_range_def upto.simps eval_nat_numeral)

text \<open>
  C10. For a proposal \<open>f\<close> whose name is not yet in the ledger and a weight \<open>w < 0\<close>,
  \<^verbatim>\<open>addProposalToCycle(f, w)\<close> should leave the cycle unchanged, insert the entry
  \<open>(0, 0)\<close> for \<open>f\<close> and raise no error. On a sampler as \<^verbatim>\<open>__init__\<close> leaves it, where
  \<^verbatim>\<open>save_jump_stats\<close> has not been assigned yet, the call with \<open>w = -1\<close> leaves the cycle
  empty and inserts the entry, and then raises \<^verbatim>\<open>AttributeError\<close> at line 948.
\<close>

theorem addProposalToCycle_negative_fresh:
  "addProposalToCycle (Proposal ''custom'' ()) (- 1) (PTSampler_init ''./chains'') =
     (Some AttributeError,
      (PTSampler_init ''./chains'')\<lparr>jumpDict := [''custom'' \<mapsto> (0, 0)]\<rparr>)"
  by (simp add: addProposalToCycle_def PTSampler_init_def py_range_def)

text \<open>
  What the claim says does hold once \<^verbatim>\<open>initialize\<close> has assigned \<^verbatim>\<open>save_jump_stats\<close>.
\<close>

lemma addProposalToCycle_negative_initialized:
  assumes "w < 0" and "fname f \<notin> dom (jumpDict st)" and "save_jump_stats st = Some b"
  shows "fst (addProposalToCycle f w st) = None"
    and "propCycle (snd (addProposalToCycle f w st)) = propCycle st"
    and "jumpDict (snd (addProposalToCycle f w st)) = (jumpDict st)(fname f \<mapsto> (0, 0))"
  using assms by (simp_all add: addProposalToCycle_def Let_def py_range_def)

lemma registered_Nil:
  "registered prop weights kw key = [] \<longleftrightarrow>
     key = ''DifferentialEvolution'' \<or> the (map_of weights key) \<le> 0"
  by (simp add: registered_def)

lemma register_keys_result:
  assumes "save_jump_stats st = Some b" and "set keys \<subseteq> fst ` set weights"
  shows "if \<forall>k\<in>set keys. prop k \<noteq> None
         then fst (register_keys prop weights kw keys st) = None \<and>
              propCycle (snd (register_keys prop weights kw keys st)) =
                propCycle st @ concat (map (registered prop weights kw) keys)
         else fst (register_keys prop weights kw keys st) = Some AttributeError"
  using assms
proof (induction keys arbitrary: st)
  case Nil
  show ?case by simp
next
  case (Cons key keys)
  show ?case
  proof (cases "prop key")
    case None
    then show ?thesis by simp
  next
    case (Some name)
    show ?thesis
    proof (cases "key = ''DifferentialEvolution''")
      case True
      then have none: "registered prop weights kw key = []"
        by (simp add: registered_def)
      with True Some Cons.IH [of st] Cons.prems show ?thesis
        by simp
    next
      case False
      from Cons.prems have "key \<in> fst ` set weights" by simp
      then obtain w where w: "map_of weights key = Some w"
        by (metis domD dom_map_of_conv_image_fst)
      let ?st' = "snd (addProposalToCycle (name (kw key)) w st)"
      have ok: "fst (addProposalToCycle (name (kw key)) w st) = None"
        and flag: "save_jump_stats ?st' = Some b"
        using addProposalToCycle_flag_set [OF Cons.prems(1)] by blast+
      from ok obtain st1 where st1: "addProposalToCycle (name (kw key)) w st = (None, st1)"
        by (cases "addProposalToCycle (name (kw key)) w st") auto
      have step: "register_keys prop weights kw (key # keys) st =
                  register_keys prop weights kw keys ?st'"
        using Some False w st1 by simp
      have cyc: "propCycle ?st' = propCycle st @ registered prop weights kw key"
        using Some False w by (simp add: addProposalToCycle_cycle registered_def)
      from Cons.IH [OF flag] Cons.prems(2) Some show ?thesis
        unfolding step by (simp add: cyc)
    qed
  qed
qed

text \<open>
  C6. \<^verbatim>\<open>initialize\<close> raises the two configuration errors in exactly these cases, before
  \<^verbatim>\<open>sample\<close> enters its loop. The weights in force are the supplied ones, or the defaults
  when none are supplied. (1) It raises \<^verbatim>\<open>Exception\<close> if and only if their keys are exactly
  \<^verbatim>\<open>DifferentialEvolution\<close> alone. (2) It raises \<^verbatim>\<open>ValueError\<close> if and only if that is not
  so, every key names a proposal of the module, and the cycle is empty after all
  registrations, that is: it was empty before and every key other than
  \<^verbatim>\<open>DifferentialEvolution\<close> has a weight \<open>\<le> 0\<close>. (3) Neither error is deferred: when
  \<^verbatim>\<open>initialize\<close> returns without error the cycle is not empty.
\<close>

theorem initialize_configuration_errors:
  "(fst (initialize prop dflt weights kw sjs st) = Some Exception \<longleftrightarrow>
      map fst (effective_weights dflt weights) = [''DifferentialEvolution''])
   \<and> (fst (initialize prop dflt weights kw sjs st) = Some ValueError \<longleftrightarrow>
      map fst (effective_weights dflt weights) \<noteq> [''DifferentialEvolution''] \<and>
      (\<forall>k \<in> fst ` set (effective_weights dflt weights). prop k \<noteq> None) \<and>
      propCycle st = [] \<and>
      (\<forall>k \<in> fst ` set (effective_weights dflt weights).
         k = ''DifferentialEvolution'' \<or> the (map_of (effective_weights dflt weights) k) \<le> 0))
   \<and> (fst (initialize prop dflt weights kw sjs st) = None \<longrightarrow>
        propCycle (snd (initialize prop dflt weights kw sjs st)) \<noteq> [])"
proof -
  let ?w = "effective_weights dflt weights"
  let ?st0 = "st\<lparr>save_jump_stats := Some sjs\<rparr>"
  let ?r = "register_keys prop ?w kw (map fst ?w) ?st0"
  show ?thesis
  proof (cases "map fst ?w = [''DifferentialEvolution'']")
    case True
    then show ?thesis
      by (simp add: initialize_def initialize_jump_proposals_def)
  next
    case False
    have init: "initialize prop dflt weights kw sjs st =
      (case ?r of (Some e, st') \<Rightarrow> (Some e, st')
        | (None, st') \<Rightarrow>
            if List.length (propCycle st') = 0 then (Some ValueError, st') else (None, st'))"
      using False by (simp add: initialize_def initialize_jump_proposals_def Let_def)
    have res: "if \<forall>k\<in>set (map fst ?w). prop k \<noteq> None
         then fst ?r = None \<and>
              propCycle (snd ?r) =
                propCycle ?st0 @ concat (map (registered prop ?w kw) (map fst ?w))
         else fst ?r = Some AttributeError"
      by (rule register_keys_result [where b = sjs]) simp_all
    show ?thesis
    proof (cases "\<forall>k\<in>set (map fst ?w). prop k \<noteq> None")
      case known: True
      with res have r: "fst ?r = None"
        and cyc: "propCycle (snd ?r) =
                    propCycle st @ concat (map (registered prop ?w kw) (map fst ?w))"
        by simp_all
      have empty: "propCycle (snd ?r) = [] \<longleftrightarrow> propCycle st = [] \<and>
         (\<forall>k \<in> fst ` set ?w. k = ''DifferentialEvolution'' \<or> the (map_of ?w k) \<le> 0)"
        unfolding cyc by (simp add: registered_Nil)
      from r obtain st' where r': "?r = (None, st')" by (cases ?r) auto
      with empty have e': "propCycle st' = [] \<longleftrightarrow> propCycle st = [] \<and>
         (\<forall>k \<in> fst ` set ?w. k = ''DifferentialEvolution'' \<or> the (map_of ?w k) \<le> 0)"
        by simp
      show ?thesis using False known e' unfolding init r' by auto
    next
      case unknown: False
      with res have r: "fst ?r = Some AttributeError" by simp
      then obtain st' where r': "?r = (Some AttributeError, st')" by (cases ?r) auto
      show ?thesis using False unknown unfolding init r' by auto
    qed
  qed
qed

theorem initialize_configuration_errors_witness:
  "fst (initialize [''AdaptiveMetropolis'' \<mapsto> (\<lambda>kw. Proposal ''AM'' ())] []
          [(''DifferentialEvolution'', 5)] (Map.empty :: string \<rightharpoonup> unit) False
          (PTSampler_init ''./chains'')) = Some Exception
   \<and> fst (initialize [''AdaptiveMetropolis'' \<mapsto> (\<lambda>kw. Proposal ''AM'' ())] []
          [(''AdaptiveMetropolis'', 0)] (Map.empty :: string \<rightharpoonup> unit) False
          (PTSampler_init ''./chains'')) = Some ValueError"
  using initialize_configuration_errors [of "[''AdaptiveMetropolis'' \<mapsto> (\<lambda>kw. Proposal ''AM'' ())]"
      "[]" "[(''DifferentialEvolution'', 5)]" "Map.empty :: string \<rightharpoonup> unit" False
      "PTSampler_init ''./chains''"]
    initialize_configuration_errors [of "[''AdaptiveMetropolis'' \<mapsto> (\<lambda>kw. Proposal ''AM'' ())]"
      "[]" "[(''AdaptiveMetropolis'', 0)]" "Map.empty :: string \<rightharpoonup> unit" False
      "PTSampler_init ''./chains''"]
  by (simp add: effective_weights_def PTSampler_init_def)

section \<open>Properties of the Metropolis stage\<close>

text \<open>A posterior of minus infinity never wins the comparison, whatever it is compared with.\<close>

lemma xgt_minus_infinity: "xgt (xadd (xsub NInf a) b) c = False"
  by (cases a; cases b; cases c; simp add: xsub_def)

text \<open>
  C4. In a step that does not replay a resumed chain, a proposed point \<open>y\<close> with
  \<^verbatim>\<open>logp(y) = -inf\<close> is rejected whatever the draw, the current posterior and the Hastings
  term are (infinite and nan included): no error is raised, \<^verbatim>\<open>logl\<close> is not called (the
  list of its calls is empty), \<open>(p0, lnlike0, lnprob0)\<close> is returned as it was, and the state
  changes only in the count of proposals of the jump, so the accepted-step counter is
  unchanged. The name of the jump is a key of the ledger, as it is for every entry of the
  cycle (\<open>addProposalToCycle_ledger\<close>).
\<close>

theorem infeasible_proposal_rejected:
  assumes "logp y = NInf"
    and "\<not> (resume \<and> resumeLength > 0 \<and> iter < resumeLength)"
    and "jumpDict st jump_name = Some (nprop, nacc)"
  shows "PTMCMCOneStep_jump logp logl T resume resumeLength resumechain (y, qxy, jump_name)
           u iter (p0, lnlike0, lnprob0) st =
         (None, st\<lparr>jumpDict := (jumpDict st)(jump_name \<mapsto> (nprop + 1, nacc))\<rparr>,
          (p0, lnlike0, lnprob0), [])
       \<and> naccepted (fst (snd (PTMCMCOneStep_jump logp logl T resume resumeLength resumechain
            (y, qxy, jump_name) u iter (p0, lnlike0, lnprob0) st))) = naccepted st"
proof -
  from assms(2) have fresh: "(resume \<and> resumeLength > 0 \<and> iter < resumeLength) = False"
    by blast
  show ?thesis
    unfolding PTMCMCOneStep_jump_def fresh
    using assms(1,3) by (simp add: xgt_minus_infinity)
qed

theorem infeasible_proposal_rejected_witness:
  "PTMCMCOneStep_jump (\<lambda>p. if hd p < 0 then NInf else Fin 0) (\<lambda>p. Fin (- hd p)) (Fin 1)
     False 0 [] ([- 1], Fin 0, ''AM'') (1 / 2) 1 ([2], Fin (- 2), Fin (- 2))
     \<lparr>propCycle = [Proposal ''AM'' ()], jumpDict = [''AM'' \<mapsto> (0, 0)],
      save_jump_stats = Some False, outDir = ''./chains'', jump_files = [], naccepted = 0\<rparr>
   = (None,
      \<lparr>propCycle = [Proposal ''AM'' ()], jumpDict = [''AM'' \<mapsto> (1, 0)],
       save_jump_stats = Some False, outDir = ''./chains'', jump_files = [], naccepted = 0\<rparr>,
      ([2], Fin (- 2), Fin (- 2)), [])"
  using infeasible_proposal_rejected [of "\<lambda>p. if hd p < 0 then NInf else Fin 0" "[- 1]"
      False 0 1
      "\<lparr>propCycle = [Proposal ''AM'' ()], jumpDict = [''AM'' \<mapsto> (0, 0)],
        save_jump_stats = Some False, outDir = ''./chains'', jump_files = [], naccepted = 0\<rparr>"
      "''AM''" 0 0 "\<lambda>p. Fin (- hd p)" "Fin 1" "[]" "Fin 0" "1 / 2" "[2]" "Fin (- 2)" "Fin (- 2)"]
  by simp

section \<open>Properties of the swap coordinator\<close>

lemma np_log_gt:
  assumes "0 \<le> u"
  shows "xgt (Fin q) (np_log u) \<longleftrightarrow> u = 0 \<or> ln u < q"
  using assms by (auto simp: np_log_def)

text \<open>
  C1. A process that is not proposing and finds the likelihood \<open>l1\<close> of its colder
  neighbour pending is the decider. With the ladder temperatures \<open>T1 < T2\<close> of the colder
  rank and of its own, and its own likelihood \<open>l2\<close>, the decision it sends under tag 888 is
  1 if and only if \<open>(1/T1 - 1/T2) * (l2 - l1)\<close> exceeds \<open>log U\<close> for the draw \<open>U\<close> of
  \<^verbatim>\<open>np.random.rand()\<close> (at \<open>U = 0\<close> the logarithm is minus infinity and every finite quantity
  exceeds it), and it performs the exchange in exactly that case.
\<close>

theorem decider_criterion:
  assumes "Tskip env \<noteq> 0"
    and "\<not> (iter mod Tskip env = 0 \<and> MPIrank env < nchain env - 1)"
    and "0 < MPIrank env"
    and "py_index (ladder env) (MPIrank env - 1) = Inr (Fin T1)"
    and "py_index (ladder env) (MPIrank env) = Inr (Fin T2)"
    and "0 < T1" and "T1 < T2"
    and "probe_in io = Some (Fin l1)"
    and "0 \<le> rand io"
  shows "\<exists>cur' more.
           PTswap env logp io (p0, Fin l2, lnprob0) iter =
             Inr (0, cur',
                  Msg (MPIrank env - 1) 888
                    (PInt (if rand io = 0 \<or> ln (rand io) < (1 / T1 - 1 / T2) * (l2 - l1)
                           then 1 else 0)) # more) \<and>
           (cur' \<noteq> (p0, Fin l2, lnprob0) \<longrightarrow>
              rand io = 0 \<or> ln (rand io) < (1 / T1 - 1 / T2) * (l2 - l1)) \<and>
           (rand io = 0 \<or> ln (rand io) < (1 / T1 - 1 / T2) * (l2 - l1) \<longrightarrow>
              cur' = (p_in io, Fin l1,
                      xadd (xmul (xdiv (Fin 1) (temp env)) (Fin l1)) (logp (p_in io))))"
  using assms
  by (simp add: PTswap_def Let_def swapReturn_def xsub_def np_log_gt)

theorem decider_criterion_witness:
  "\<exists>cur' more.
     PTswap \<lparr>MPIrank = 1, nchain = 3, Tskip = 100, ladder = [Fin 1, Fin 2, Fin 4], temp = Fin 2\<rparr>
       (\<lambda>p. Fin 0)
       \<lparr>decision_in = 0, lnlike_in = Fin 0, p_in = [7], probe_in = Some (Fin 5), rand = 1 / 2\<rparr>
       ([4], Fin 3, Fin (3 / 2)) 7
     = Inr (0, cur', Msg 0 888 (PInt 0) # more)"
proof -
  have "\<not> ln (1 / 2 :: real) < - 1"
    using ln_ge_iff [of "1 / 2" "- 1"] exp_ge_add_one_self [of 1] exp_minus [of "1::real"]
    by (simp add: field_simps)
  then show ?thesis
    using decider_criterion [where env = "\<lparr>MPIrank = 1, nchain = 3, Tskip = 100,
        ladder = [Fin 1, Fin 2, Fin 4], temp = Fin 2\<rparr>" and iter = 7 and ?T1.0 = 1 and ?T2.0 = 2
        and io = "\<lparr>decision_in = 0, lnlike_in = Fin 0, p_in = [7], probe_in = Some (Fin 5),
          rand = 1 / 2\<rparr>" and ?l1.0 = 5 and ?l2.0 = 3 and logp = "\<lambda>p. Fin 0" and ?p0.0 = "[4]"
        and ?lnprob0.0 = "Fin (3 / 2)"]
    by (simp add: py_index_def) blast
qed

text \<open>
  C5, as the code has it. \<^verbatim>\<open>PTswap\<close> returns 2 exactly when this process proposed a swap
  in this iteration (the iteration is on the cadence and the process is not the hottest) and
  the hotter neighbour accepted it, 1 exactly when it proposed and the neighbour rejected,
  and 0 in every other case. The other cases include the process that decided on the
  proposal of its colder neighbour, whether it accepted or rejected: the code counts swaps
  for the colder chain of a pair only.
\<close>

theorem PTswap_return_code:
  assumes "Tskip env \<noteq> 0"
    and "0 \<le> MPIrank env" and "MPIrank env < int (List.length (ladder env))"
  shows "\<exists>cur' sent.
           PTswap env logp io cur iter =
             Inr (if iter mod Tskip env = 0 \<and> MPIrank env < nchain env - 1
                  then (if decision_in io \<noteq> 0 then 2 else 1) else 0, cur', sent)"
  using assms
  by (cases cur) (auto simp: PTswap_def Let_def swapReturn_def py_index_def split: option.splits)

theorem PTswap_return_code_witness:
  "\<exists>cur' sent.
     PTswap \<lparr>MPIrank = 0, nchain = 2, Tskip = 100, ladder = [Fin 1, Fin 2], temp = Fin 1\<rparr>
       (\<lambda>p. Fin 0)
       \<lparr>decision_in = 1, lnlike_in = Fin 5, p_in = [4], probe_in = None, rand = 1 / 2\<rparr>
       ([7], Fin 3, Fin 3) 200
     = Inr (2, cur', sent)"
  using PTswap_return_code [where env = "\<lparr>MPIrank = 0, nchain = 2, Tskip = 100,
      ladder = [Fin 1, Fin 2], temp = Fin 1\<rparr>" and iter = 200 and logp = "\<lambda>p. Fin 0"
      and io = "\<lparr>decision_in = 1, lnlike_in = Fin 5, p_in = [4], probe_in = None,
        rand = 1 / 2\<rparr>" and cur = "([7], Fin 3, Fin 3)"]
  by simp

text \<open>
  The claim as stated fails for the decider: the hottest of two processes receives the
  proposal of its colder neighbour, accepts it (the decision sent is 1, likelihoods and
  parameter vectors are exchanged) and returns 0.
\<close>

theorem decider_accepts_returns_zero:
  "PTswap \<lparr>MPIrank = 1, nchain = 2, Tskip = 100, ladder = [Fin 1, Fin 2], temp = Fin 2\<rparr>
     (\<lambda>p. Fin 0)
     \<lparr>decision_in = 0, lnlike_in = Fin 0, p_in = [7], probe_in = Some (Fin 3), rand = 1 / 2\<rparr>
     ([4], Fin 5, Fin (5 / 2)) 100
   = Inr (0, ([7], Fin 3, Fin (3 / 2)),
          [Msg 0 888 (PInt 1), Msg 0 18 (PFloat (Fin 5)), Msg 0 19 (PVec [4])])"
proof -
  have "ln (1 / 2 :: real) < 1" by (rule less_trans [of _ 0]) (simp_all add: ln_less_zero)
  then show ?thesis
    by (simp add: PTswap_def Let_def swapReturn_def py_index_def xsub_def np_log_def)
qed

section \<open>Properties of the temperature ladder\<close>

lemma xpow_Fin: "xpow (Fin r) n = Fin (r ^ n)"
  by (induction n) simp_all

lemma geometric_increasing:
  assumes "0 < Tmin" and "1 < r"
  shows "increasing (map (\<lambda>ii. Fin (Tmin * r ^ ii)) [0..<K])"
  unfolding increasing_def sorted_wrt_map
  using assms by (simp add: sorted_wrt_iff_nth_less power_strict_increasing)

lemma tstep_Tmax:
  assumes "0 < Tmin" and "0 < Tmax" and "2 \<le> K"
  shows "ladder_tstep K ndim Tmin (Some Tmax) None =
           Inr (Fin ((Tmax / Tmin) powr (1 / real (K - 1))))"
proof -
  have "np_log (Tmax / Tmin) = Fin (ln (Tmax / Tmin))"
    using assms by (simp add: np_log_def not_less)
  moreover have "real (K - 1) \<noteq> 0" using assms by simp
  moreover have "Tmax / Tmin \<noteq> 0" using assms by simp
  ultimately show ?thesis
    using assms(1) by (simp add: ladder_tstep_def powr_def)
qed

lemma root_power:
  assumes "0 < q" and "2 \<le> K"
  shows "(q powr (1 / real (K - 1))) ^ (K - 1) = q"
proof -
  have "(q powr (1 / real (K - 1))) ^ (K - 1) = q powr (1 / real (K - 1) * real (K - 1))"
    using assms by (simp add: powr_powr flip: powr_realpow)
  also have "\<dots> = q" using assms by simp
  finally show ?thesis .
qed

text \<open>
  C2, as the code has it. For \<open>K \<ge> 2\<close> processes and \<open>Tmin > 0\<close>, with \<^verbatim>\<open>tstep\<close> left at
  its default, \<^verbatim>\<open>temperatureLadder\<close> returns a sequence of length \<open>K\<close> with
  \<open>ladder[0] = Tmin\<close> and \<open>ladder[i] = Tmin * r^i\<close>. Without \<^verbatim>\<open>Tmax\<close>, in dimension
  \<open>n \<ge> 1\<close>, the ratio is \<open>r = 1 + sqrt (2/n)\<close> and the ladder is strictly increasing. With
  \<open>Tmax > 0\<close> the ratio is \<open>r = (Tmax/Tmin)^(1/(K-1))\<close> and \<open>ladder[K-1] = Tmax\<close>; this
  ladder is strictly increasing when \<open>Tmax > Tmin\<close>.
\<close>

theorem temperatureLadder_geometric:
  assumes "2 \<le> K" and "0 < Tmin"
  shows "(0 < ndim \<longrightarrow>
           (\<exists>l. temperatureLadder K ndim Tmin None None = Inr l \<and> List.length l = K \<and>
                l ! 0 = Fin Tmin \<and>
                (\<forall>i<K. l ! i = Fin (Tmin * (1 + sqrt (2 / real ndim)) ^ i)) \<and>
                increasing l))
       \<and> (0 < Tmax \<longrightarrow>
           (\<exists>l. temperatureLadder K ndim Tmin (Some Tmax) None = Inr l \<and> List.length l = K \<and>
                l ! 0 = Fin Tmin \<and>
                (\<forall>i<K. l ! i = Fin (Tmin * ((Tmax / Tmin) powr (1 / real (K - 1))) ^ i)) \<and>
                l ! (K - 1) = Fin Tmax \<and>
                (Tmin < Tmax \<longrightarrow> increasing l)))"
proof (intro conjI impI)
  assume n: "0 < ndim"
  let ?l = "map (\<lambda>i. Fin (Tmin * (1 + sqrt (2 / real ndim)) ^ i)) [0..<K]"
  have "temperatureLadder K ndim Tmin None None = Inr ?l"
    using n assms by (simp add: temperatureLadder_def ladder_tstep_def xpow_Fin)
  moreover have "List.length ?l = K" and "?l ! 0 = Fin Tmin"
    and "\<forall>i<K. ?l ! i = Fin (Tmin * (1 + sqrt (2 / real ndim)) ^ i)"
    using assms by simp_all
  moreover from n have "1 < 1 + sqrt (2 / real ndim)" by simp
  with assms have "increasing ?l" by (intro geometric_increasing)
  ultimately show "\<exists>l. temperatureLadder K ndim Tmin None None = Inr l \<and> List.length l = K \<and>
                l ! 0 = Fin Tmin \<and>
                (\<forall>i<K. l ! i = Fin (Tmin * (1 + sqrt (2 / real ndim)) ^ i)) \<and>
                increasing l"
    by blast
next
  assume pos: "0 < Tmax"
  let ?r = "(Tmax / Tmin) powr (1 / real (K - 1))"
  let ?l = "map (\<lambda>i. Fin (Tmin * ?r ^ i)) [0..<K]"
  have "temperatureLadder K ndim Tmin (Some Tmax) None = Inr ?l"
    using assms pos by (simp add: temperatureLadder_def tstep_Tmax xpow_Fin)
  moreover have "List.length ?l = K" and "?l ! 0 = Fin Tmin"
    and "\<forall>i<K. ?l ! i = Fin (Tmin * ?r ^ i)"
    using assms by simp_all
  moreover have "Tmin * ?r ^ (K - 1) = Tmax"
    using root_power [of "Tmax / Tmin" K] assms pos by simp
  then have "?l ! (K - 1) = Fin Tmax"
    using assms by simp
  moreover have "Tmin < Tmax \<longrightarrow> increasing ?l"
  proof
    assume "Tmin < Tmax"
    with assms have "1 < Tmax / Tmin" by simp
    then have "1 < ?r" using assms by (intro gr_one_powr) simp_all
    with assms show "increasing ?l" by (intro geometric_increasing)
  qed
  ultimately show "\<exists>l. temperatureLadder K ndim Tmin (Some Tmax) None = Inr l \<and>
                List.length l = K \<and> l ! 0 = Fin Tmin \<and>
                (\<forall>i<K. l ! i = Fin (Tmin * ?r ^ i)) \<and>
                l ! (K - 1) = Fin Tmax \<and> (Tmin < Tmax \<longrightarrow> increasing l)"
    by blast
qed

theorem temperatureLadder_geometric_witness:
  "\<exists>l. temperatureLadder 2 2 1 (Some 4) None = Inr l \<and> List.length l = 2 \<and>
       l ! 0 = Fin 1 \<and> l ! 1 = Fin 4 \<and> increasing l"
  using temperatureLadder_geometric [of 2 1 2 4] by simp blast

text \<open>
  The claim as stated fails when \<^verbatim>\<open>Tmax\<close> is below \<^verbatim>\<open>Tmin\<close>: two processes with
  \<open>Tmin = 2\<close> and \<open>Tmax = 1\<close> get the ladder \<open>[2, 1]\<close>.
\<close>

theorem ladder_not_increasing:
  "temperatureLadder 2 1 2 (Some 1) None = Inr [Fin 2, Fin 1] \<and> \<not> increasing [Fin 2, Fin 1]"
  by (simp add: temperatureLadder_def ladder_tstep_def np_log_def increasing_def
      eval_nat_numeral)

section \<open>Properties of the differential-evolution buffer\<close>

lemma py_slice_window:
  assumes "0 \<le> a" and "a \<le> b" and "b \<le> int (List.length xs)"
  shows "py_slice xs a b = take (nat (b - a)) (drop (nat a) xs)"
  using assms by (simp add: py_slice_def py_bound_def Let_def min_def max_def nat_diff_distrib)

lemma most_recent_window:
  assumes "b \<le> m" and "m \<le> List.length xs"
  shows "most_recent b (take m xs) = take b (drop (m - b) xs)"
  using assms by (simp add: most_recent_def drop_take min_def)

text \<open>
  What the update does: at the start of every step \<open>iter\<close> of the cold process for which
  \<open>m = iter - 1\<close> is a positive multiple of \<^verbatim>\<open>burn\<close>, the buffer is replaced wholesale by
  rows \<open>m - burn, \<dots>, m - 1\<close> of the trajectory buffer of the chain, the last \<^verbatim>\<open>burn\<close>
  rows among the first \<open>m\<close>.
\<close>

lemma DEbuffer_window:
  assumes "0 < burn" and "0 < k" and "iter - 1 = k * burn"
    and "chain_ind < List.length (AMbuffer tr)"
    and "iter - 1 \<le> int (List.length (AMbuffer tr ! chain_ind))"
  shows "PTMCMCOneStep_DE 0 burn iter chain_ind tr =
           Inr (tr\<lparr>DEbuffer :=
                 Some (take (nat burn) (drop (nat (iter - 1 - burn)) (AMbuffer tr ! chain_ind)))\<rparr>)
       \<and> take (nat burn) (drop (nat (iter - 1 - burn)) (AMbuffer tr ! chain_ind)) =
           most_recent (nat burn) (take (nat (iter - 1)) (AMbuffer tr ! chain_ind))"
proof -
  have ge: "burn \<le> iter - 1" using assms(1-3) by (simp add: mult_le_cancel_right1)
  have fire: "(iter - 1) mod burn = 0 \<and> iter - 1 \<noteq> 0 \<and> burn \<noteq> 0"
    using assms(1-3) by simp
  have sl: "py_slice (AMbuffer tr ! chain_ind) (iter - 1 - burn) (iter - 1) =
          take (nat burn) (drop (nat (iter - 1 - burn)) (AMbuffer tr ! chain_ind))"
    using py_slice_window [of "iter - 1 - burn" "iter - 1" "AMbuffer tr ! chain_ind"]
      ge assms(1,5) by simp
  have "take (nat burn) (drop (nat (iter - 1 - burn)) (AMbuffer tr ! chain_ind)) =
           most_recent (nat burn) (take (nat (iter - 1)) (AMbuffer tr ! chain_ind))"
    using most_recent_window [of "nat burn" "nat (iter - 1)" "AMbuffer tr ! chain_ind"]
      ge assms(1,5) by (simp add: nat_diff_distrib)
  with fire sl assms(4) show ?thesis
    by (simp add: PTMCMCOneStep_DE_def updateDEbuffer_def)
qed

text \<open>
  C9. At every step of the cold process where the update fires, the buffer should
  afterwards hold the \<^verbatim>\<open>burn\<close> most recently recorded points of the trajectory, as the
  docstring of \<^verbatim>\<open>_updateDEbuffer\<close> says (the last \<^verbatim>\<open>burn\<close> values in the total chain). It
  misses the latest one. With \<open>burn = 2\<close> the process records the initial point \<open>[10]\<close> in
  row 0 and the points \<open>[11]\<close>, \<open>[12]\<close> of steps 1 and 2 in rows 1 and 2. The update at the
  start of step 3 then sets the buffer to rows 0 and 1, while the two most recently recorded
  points are rows 1 and 2.
\<close>

theorem DEbuffer_misses_latest:
  "sample_buffers 2 1 [10] [[11], [12]] (allocate 1 5 5 1) =
     Inr \<lparr>AMbuffer = [[[10], [11], [12], [0], [0], [0]]], DEbuffer = None,
          chain_arr = [[[10], [11], [12], [0], [0]]],
          lnlike_arr = [[0, 0, 0, 0, 0]], lnprob_arr = [[0, 0, 0, 0, 0]]\<rparr>
   \<and> PTMCMCOneStep_DE 0 2 3 0
       \<lparr>AMbuffer = [[[10], [11], [12], [0], [0], [0]]], DEbuffer = None,
        chain_arr = [[[10], [11], [12], [0], [0]]],
        lnlike_arr = [[0, 0, 0, 0, 0]], lnprob_arr = [[0, 0, 0, 0, 0]]\<rparr> =
     Inr \<lparr>AMbuffer = [[[10], [11], [12], [0], [0], [0]]], DEbuffer = Some [[10], [11]],
          chain_arr = [[[10], [11], [12], [0], [0]]],
          lnlike_arr = [[0, 0, 0, 0, 0]], lnprob_arr = [[0, 0, 0, 0, 0]]\<rparr>
   \<and> most_recent 2 [[10], [11], [12 :: real]] = [[11], [12]]"
  by (simp add: sample_buffers_def updateChains_def set_row_def allocate_def py_int_div_def
      PTMCMCOneStep_DE_def updateDEbuffer_def py_slice_def py_bound_def most_recent_def
      eval_nat_numeral)

section \<open>Properties of the trajectory file\<close>

text \<open>
  The reader of a resumed run takes the parameters, the likelihood and the posterior from
  a row laid out as parameters, posterior, likelihood and the two acceptance fractions.
\<close>

lemma resume_first_layout:
  "resume_first ((ps @ [lp, ll, acc, sw]) # rest) = Inr (ps, ll, lp)"
proof -
  let ?row = "ps @ [lp, ll, acc, sw]"
  have n: "int (List.length ?row) = int (List.length ps) + 4" by simp
  have "nat (- 3 + (int (List.length ps) + 4)) = Suc (List.length ps)"
    and "nat (- 4 + (int (List.length ps) + 4)) = List.length ps" by simp_all
  then have "py_index ?row (- 3) = Inr ll" and "py_index ?row (- 4) = Inr lp"
    unfolding py_index_def Let_def n by (simp_all add: nth_append)
  moreover have "py_slice ?row 0 (- 4) = ps"
    unfolding py_slice_def py_bound_def Let_def n by simp
  ultimately show ?thesis
    by (simp add: resume_first_def py_index_def)
qed

text \<open>
  C7. Every row written by \<^verbatim>\<open>_writeToFile\<close> should hold the \<open>n\<close> parameter values, the
  posterior, the likelihood and the two acceptance fractions. The writer indexes
  \<^verbatim>\<open>_chain\<close>, \<^verbatim>\<open>_lnprob\<close> and \<^verbatim>\<open>_lnlike\<close> without the chain axis that
  \<^verbatim>\<open>updateChains\<close> writes them with, so what it formats is an array, not a number. With two
  parameters, two cold chains, four samples per chain and a save every two iterations, the
  first save raises \<^verbatim>\<open>TypeError\<close> and no row is written.
\<close>

theorem writeToFile_raises:
  "writeToFile (\<lambda>d v. v)
     \<lparr>f_rank = 0, f_nchain = 1, f_ndim = 2, isave = 2, thin = 1, swapProposed = 0,
      nswap_accepted = 0, f_naccepted = 1\<rparr>
     \<lparr>AMbuffer = [[[1, 5], [2, 6], [3, 7], [0, 0], [0, 0]],
                  [[0, 0], [0, 0], [0, 0], [0, 0], [0, 0]]],
      DEbuffer = None,
      chain_arr = [[[1, 5], [2, 6], [3, 7], [0, 0]], [[0, 0], [0, 0], [0, 0], [0, 0]]],
      lnlike_arr = [[- 1, - 2, - 3, 0], [0, 0, 0, 0]],
      lnprob_arr = [[- 1, - 2, - 3, 0], [0, 0, 0, 0]]\<rparr> 2
   = Inl TypeError"
  by (simp add: writeToFile_def py_range3_def write_row_def sequence_def chain_cell_def
      py_index_def py_int_div_def eval_nat_numeral)

section \<open>Properties of the covariance estimator\<close>

lemma sum_deviations:
  "(\<Sum>y\<leftarrow>ys. (f y - c) * (g y - d)) =
     (\<Sum>y\<leftarrow>ys. f y * g y) - d * (\<Sum>y\<leftarrow>ys. f y) - c * (\<Sum>y\<leftarrow>ys. g y)
       + real (List.length ys) * c * (d::real)"
  by (induction ys) (simp_all add: algebra_simps)

lemma avg_times_length: "real (List.length ys) * avg f ys = (\<Sum>y\<leftarrow>ys. f y)"
  by (cases "ys = []") (simp_all add: avg_def)

lemma avg_snoc: "(1 + real (List.length ys)) * avg f (ys @ [x]) = real (List.length ys) * avg f ys + f x"
proof -
  have "0 < 1 + real (List.length ys)" by linarith
  then show ?thesis
    unfolding avg_times_length by (simp add: avg_def)
qed

lemma welford_mean:
  "avg f ys + (f x - avg f ys) / (real (List.length ys) + 1) = avg f (ys @ [x])"
proof -
  have pos: "0 < 1 + real (List.length ys)" by linarith
  then have "(1 + real (List.length ys)) * (avg f ys + (f x - avg f ys) / (1 + real (List.length ys))) =
        (1 + real (List.length ys)) * avg f (ys @ [x])"
    unfolding avg_snoc by (simp add: field_simps)
  with pos have "avg f ys + (f x - avg f ys) / (1 + real (List.length ys)) = avg f (ys @ [x])"
    by simp
  then show ?thesis by (simp add: add.commute)
qed

lemma scalar_scatter:
  fixes n c d c' d' P xa xb :: real
  assumes "(1 + n) * c' = n * c + xa" and "(1 + n) * d' = n * d + xb"
  shows "(P + xa * xb) - d' * (n * c + xa) - c' * (n * d + xb) + (1 + n) * c' * d'
         = (P - d * (n * c) - c * (n * d) + n * c * d) + (xa - c) * (xb - d')"
  using assms by algebra

lemma welford_scatter:
  "(\<Sum>y\<leftarrow>ys @ [x]. (f y - avg f (ys @ [x])) * (g y - avg g (ys @ [x]))) =
   (\<Sum>y\<leftarrow>ys. (f y - avg f ys) * (g y - avg g ys)) + (f x - avg f ys) * (g x - avg g (ys @ [x]))"
proof -
  let ?n = "real (List.length ys)"
  have "(\<Sum>y\<leftarrow>ys @ [x]. (f y - avg f (ys @ [x])) * (g y - avg g (ys @ [x]))) =
        ((\<Sum>y\<leftarrow>ys. f y * g y) + f x * g x) - avg g (ys @ [x]) * (?n * avg f ys + f x)
          - avg f (ys @ [x]) * (?n * avg g ys + g x) + (1 + ?n) * avg f (ys @ [x]) * avg g (ys @ [x])"
    unfolding sum_deviations by (simp add: avg_times_length)
  also have "\<dots> = ((\<Sum>y\<leftarrow>ys. f y * g y) - avg g ys * (?n * avg f ys) - avg f ys * (?n * avg g ys)
          + ?n * avg f ys * avg g ys) + (f x - avg f ys) * (g x - avg g (ys @ [x]))"
    by (rule scalar_scatter) (rule avg_snoc)+
  also have "\<dots> = (\<Sum>y\<leftarrow>ys. (f y - avg f ys) * (g y - avg g ys)) + (f x - avg f ys) * (g x - avg g (ys @ [x]))"
    unfolding sum_deviations by (simp add: avg_times_length)
  finally show ?thesis .
qed

lemma batch_mean_avg: "batch_mean ndim xs = map (\<lambda>a. avg (\<lambda>y. y ! a) xs) [0..<ndim]"
  by (simp add: batch_mean_def avg_def)

lemma batch_cov_scatter:
  "batch_cov ndim xs = map (map (\<lambda>v. v / (real (List.length xs) - 1))) (scatter ndim xs)"
  unfolding batch_cov_def scatter_def batch_mean_avg by simp

lemma mean_loop:
  assumes "List.length d = n" and "List.length m = n" and "k \<le> n"
  shows "fold (mean_step x it) [0..<k] (d, m) =
           (map (\<lambda>j. if j < k then x ! j - m ! j else d ! j) [0..<n],
            map (\<lambda>j. if j < k then m ! j + (x ! j - m ! j) / real_of_int it else m ! j) [0..<n])"
  using assms(3)
proof (induction k)
  case 0
  have "map ((!) d) [0..<n] = d"
    unfolding assms(1) [symmetric] by (rule map_nth)
  moreover have "map ((!) m) [0..<n] = m"
    unfolding assms(2) [symmetric] by (rule map_nth)
  ultimately show ?case by simp
next
  case (Suc k)
  let ?D = "\<lambda>k. map (\<lambda>j. if j < k then x ! j - m ! j else d ! j) [0..<n]"
  let ?M = "\<lambda>k. map (\<lambda>j. if j < k then m ! j + (x ! j - m ! j) / real_of_int it else m ! j)
                 [0..<n]"
  from Suc have k: "k < n" and IH: "fold (mean_step x it) [0..<k] (d, m) = (?D k, ?M k)"
    by simp_all
  have Mk: "?M k ! k = m ! k" using k by simp
  have D': "(?D k)[k := x ! k - m ! k] = ?D (Suc k)"
    by (rule nth_equalityI) (use k in \<open>auto simp: nth_list_update less_Suc_eq\<close>)
  have Dk: "?D (Suc k) ! k = x ! k - m ! k" using k by simp
  have M': "(?M k)[k := m ! k + (x ! k - m ! k) / real_of_int it] = ?M (Suc k)"
    by (rule nth_equalityI) (use k in \<open>auto simp: nth_list_update less_Suc_eq\<close>)
  have "mean_step x it k (?D k, ?M k) = (?D (Suc k), ?M (Suc k))"
    unfolding mean_step_def Let_def prod.case Mk D' Dk M' ..
  then show ?case
    unfolding upt_Suc_append [OF le0] fold_append comp_def IH by simp
qed

lemma map2_upt:
  "map2 f (map g [0..<n]) (map h [0..<n]) = map (\<lambda>i. f (g i) (h i)) [0..<n]"
  by (rule nth_equalityI) simp_all

lemma mat_add_maps:
  "mat_add (map (\<lambda>a. map (g a) [0..<n]) [0..<n]) (map (\<lambda>a. map (h a) [0..<n]) [0..<n]) =
     map (\<lambda>a. map (\<lambda>b. g a b + h a b) [0..<n]) [0..<n]"
  unfolding mat_add_def map2_upt ..

lemma outer_maps:
  "outer (map g [0..<n]) (map h [0..<n]) = map (\<lambda>a. map (\<lambda>b. g a * h b) [0..<n]) [0..<n]"
  by (simp add: outer_def comp_def)

lemma vec_sub_map:
  assumes "List.length x = n"
  shows "vec_sub x (map h [0..<n]) = map (\<lambda>b. x ! b - h b) [0..<n]"
proof -
  have "map ((!) x) [0..<n] = x"
    unfolding assms [symmetric] by (rule map_nth)
  then have "vec_sub x (map h [0..<n]) = map2 (-) (map ((!) x) [0..<n]) (map h [0..<n])"
    unfolding vec_sub_def by simp
  then show ?thesis unfolding map2_upt .
qed



lemma accumulate_step:
  assumes "welford_inv ndim xs (it, st)" and "List.length x = ndim"
  shows "welford_inv ndim (xs @ [x]) (accumulate ndim x (it, st))"
proof -
  from assms(1) have it: "it = int (List.length xs)"
    and m: "mu st = map (\<lambda>a. avg (\<lambda>y. y ! a) xs) [0..<ndim]"
    and s: "M2 st = scatter ndim xs"
    by (simp_all add: welford_inv_def batch_mean_avg)
  let ?m' = "map (\<lambda>a. avg (\<lambda>y. y ! a) (xs @ [x])) [0..<ndim]"
  let ?d = "map (\<lambda>a. x ! a - avg (\<lambda>y. y ! a) xs) [0..<ndim]"
  have "fold (mean_step x (it + 1)) [0..<ndim] (replicate ndim 0, mu st) =
          (map (\<lambda>j. if j < ndim then x ! j - mu st ! j else replicate ndim 0 ! j) [0..<ndim],
           map (\<lambda>j. if j < ndim then mu st ! j + (x ! j - mu st ! j) / real_of_int (it + 1)
                     else mu st ! j) [0..<ndim])"
    by (rule mean_loop) (simp_all add: m)
  also have "\<dots> = (?d, ?m')"
    by (simp add: m it welford_mean [of "\<lambda>y. y ! a" xs x for a] cong: map_cong)
  finally have loop:
    "fold (mean_step x (it + 1)) [0..<ndim] (replicate ndim 0, mu st) = (?d, ?m')" .
  have entry: "(\<Sum>y\<leftarrow>xs. (y ! a - avg (\<lambda>y. y ! a) xs) * (y ! b - avg (\<lambda>y. y ! b) xs))
        + (x ! a - avg (\<lambda>y. y ! a) xs) * (x ! b - avg (\<lambda>y. y ! b) (xs @ [x]))
      = (\<Sum>y\<leftarrow>xs @ [x]. (y ! a - avg (\<lambda>y. y ! a) (xs @ [x])) * (y ! b - avg (\<lambda>y. y ! b) (xs @ [x])))"
    for a b
    using welford_scatter [of "\<lambda>y. y ! a" xs x "\<lambda>y. y ! b"] by simp
  have "mat_add (scatter ndim xs) (outer ?d (vec_sub x ?m')) = scatter ndim (xs @ [x])"
    unfolding vec_sub_map [OF assms(2)] outer_maps scatter_def mat_add_maps
    by (simp only: entry)
  then show ?thesis
    unfolding welford_inv_def accumulate_def it
    by (simp add: loop [unfolded it] Let_def s batch_mean_avg)
qed

lemma accumulate_rows:
  assumes "welford_inv ndim xs (it, st)" and "\<forall>x\<in>set rows. List.length x = ndim"
  shows "welford_inv ndim (xs @ rows) (fold (accumulate ndim) rows (it, st))"
  using assms
proof (induction rows arbitrary: xs it st)
  case Nil
  then show ?case by simp
next
  case (Cons x rows)
  obtain it' st' where acc: "accumulate ndim x (it, st) = (it', st')"
    by (cases "accumulate ndim x (it, st)")
  with accumulate_step [OF Cons.prems(1), of x] Cons.prems(2)
  have "welford_inv ndim (xs @ [x]) (it', st')" by simp
  from Cons.IH [OF this] Cons.prems(2) show ?case by (simp add: acc)
qed


lemma py_range_upt: "py_range 0 (int m) = map int [0..<m]"
proof (induction m)
  case 0
  show ?case by (simp add: py_range_def)
next
  case (Suc m)
  have "py_range 0 (int (Suc m)) = [0..int m - 1] @ [int m]"
    unfolding py_range_def using upto_rec2 [of 0 "int m"] by simp
  with Suc show ?case by (simp add: py_range_def)
qed

lemma window_rows:
  assumes "a + m \<le> List.length rows"
  shows "map (\<lambda>ii. rows ! nat (int (a + m) - int m + ii)) (py_range 0 (int m)) =
         take m (drop a rows)"
  unfolding py_range_upt
  by (rule nth_equalityI) (use assms in \<open>simp_all add: nat_add_distrib\<close>)

lemma welford_inv_reset:
  "welford_inv ndim [] (0, st\<lparr>M2 := replicate ndim (replicate ndim 0), mu := replicate ndim 0\<rparr>)"
  by (simp add: welford_inv_def batch_mean_avg scatter_def avg_def map_replicate_const)

lemma accumulate_frame:
  "cov (snd (accumulate ndim x p)) = cov (snd p) \<and>
   cov_integer (snd (accumulate ndim x p)) = cov_integer (snd p)"
  by (cases p) (simp add: accumulate_def Let_def split: prod.splits)

lemma accumulate_rows_frame:
  "cov (snd (fold (accumulate ndim) rows p)) = cov (snd p) \<and>
   cov_integer (snd (fold (accumulate ndim) rows p)) = cov_integer (snd p)"
  by (induction rows arbitrary: p) (simp_all add: accumulate_frame)

lemma square_nth:
  assumes "square n c" and "i < n"
  shows "List.length (c ! i) = n"
  using assms by (simp add: square_def)

lemma bcast_id: "i < n \<Longrightarrow> bcast n i = i"
  by (simp add: bcast_def)

lemma assign_all_float:
  assumes "square n c" and "square n src"
  shows "assign_all False cast c src = Inr src"
proof -
  have len: "List.length c = n" "List.length src = n"
    using assms by (simp_all add: square_def)
  have inner: "map (\<lambda>j. src ! bcast n i ! bcast n j)
                 [0..<List.length (c ! i)] = src ! i" if "i < n" for i
  proof -
    from that assms have l: "List.length (c ! i) = n" "List.length (src ! i) = n"
      by (simp_all add: square_nth)
    have "map (\<lambda>j. src ! bcast n i ! bcast n j) [0..<n] =
          map (\<lambda>j. src ! i ! j) [0..<n]"
      using that by (simp add: bcast_id cong: map_cong)
    also have "\<dots> = src ! i"
      unfolding l(2) [symmetric] by (rule map_nth)
    finally show ?thesis unfolding l(1) .
  qed
  have "map (\<lambda>i. map (\<lambda>j. src ! bcast n i ! bcast n j)
               [0..<List.length (c ! i)]) [0..<n] = map (\<lambda>i. src ! i) [0..<n]"
    by (simp add: inner cong: map_cong)
  also have "\<dots> = src"
    unfolding len(2) [symmetric] by (rule map_nth)
  finally have all: "map (\<lambda>i. map (\<lambda>j. src ! bcast n i ! bcast n j)
               [0..<List.length (c ! i)]) [0..<n] = src" .
  have "\<forall>row\<in>set c. n = 1 \<or> List.length row = n"
    using assms(1) by (simp add: square_def)
  then show ?thesis
    unfolding assign_all_def Let_def len using all by simp
qed

lemma svd_group_finite:
  assumes "square n c" and "\<forall>row\<in>set c. \<forall>x\<in>set row. finite_x x" and "\<forall>i\<in>set g. i < n"
  shows "svd_group c g = None"
proof -
  have ok: "i < List.length c \<and> j < List.length (c ! i) \<and> finite_x (c ! i ! j)"
    if "i \<in> set g" and "j \<in> set g" for i j
  proof -
    from that assms(3) have i: "i < n" and j: "j < n" by simp_all
    from i assms(1) have li: "i < List.length c" by (simp add: square_def)
    from i j assms(1) have lj: "j < List.length (c ! i)" by (simp add: square_nth)
    from li have "c ! i \<in> set c" by (rule nth_mem)
    moreover from lj have "c ! i ! j \<in> set (c ! i)" by (rule nth_mem)
    ultimately have "finite_x (c ! i ! j)" using assms(2) by blast
    with li lj show ?thesis by simp
  qed
  have no_index: "\<not> (\<exists>i\<in>set g. \<exists>j\<in>set g. \<not> (i < List.length c \<and> j < List.length (c ! i)))"
    using ok by blast
  have no_special: "\<not> (\<exists>i\<in>set g. \<exists>j\<in>set g. \<not> finite_x (c ! i ! j))"
    using ok by blast
  show ?thesis
    unfolding svd_group_def using no_index no_special by presburger
qed

lemma svd_groups_finite:
  assumes "square n c" and "\<forall>row\<in>set c. \<forall>x\<in>set row. finite_x x"
    and "\<forall>g\<in>set groups. \<forall>i\<in>set g. i < n"
  shows "first_error (map (svd_group c) groups) = None"
proof -
  have "svd_group c g = None" if "g \<in> set groups" for g
    using svd_group_finite [OF assms(1,2)] assms(3) that by blast
  then have "filter (\<lambda>e. e \<noteq> None) (map (svd_group c) groups) = []"
    by (simp add: filter_empty_conv)
  then show ?thesis by (simp add: first_error_def)
qed

lemma square_batch_cov: "square ndim (map (map Fin) (batch_cov ndim xs))"
  by (simp add: square_def batch_cov_def)

lemma updateRecursive_window:
  fixes rows :: "real list list"
  assumes "0 < m" and "rows = amb ! chain_ind" and "a + m \<le> List.length rows"
    and "\<forall>x\<in>set (take (a + m) rows). List.length x = ndim"
    and "a = 0 \<or> (mu st = batch_mean ndim (take a rows) \<and> M2 st = scatter ndim (take a rows))"
    and "1 < a + m" and "\<not> cov_integer st" and "square ndim (cov st)"
    and "\<forall>g\<in>set groups. \<forall>i\<in>set g. i < ndim"
  shows "fst (updateRecursive groups cast amb ndim (int (a + m)) (int m) chain_ind st) = None
       \<and> mu (snd (updateRecursive groups cast amb ndim (int (a + m)) (int m) chain_ind st)) =
           batch_mean ndim (take (a + m) rows)
       \<and> M2 (snd (updateRecursive groups cast amb ndim (int (a + m)) (int m) chain_ind st)) =
           scatter ndim (take (a + m) rows)
       \<and> cov (snd (updateRecursive groups cast amb ndim (int (a + m)) (int m) chain_ind st)) =
           map (map Fin) (batch_cov ndim (take (a + m) rows))
       \<and> \<not> cov_integer (snd (updateRecursive groups cast amb ndim (int (a + m)) (int m)
             chain_ind st))"
proof -
  let ?st0 = "if int (a + m) - int m = 0
              then st\<lparr>M2 := replicate ndim (replicate ndim 0), mu := replicate ndim 0\<rparr> else st"
  let ?c = "map (map Fin) (batch_cov ndim (take (a + m) rows))"
  have start: "welford_inv ndim (take a rows) (int (a + m) - int m, ?st0)"
  proof (cases "a = 0")
    case True
    then show ?thesis using welford_inv_reset [of ndim st] by simp
  next
    case False
    with assms(3,5) show ?thesis by (simp add: welford_inv_def)
  qed
  have window: "\<forall>x\<in>set (take m (drop a rows)). List.length x = ndim"
    using assms(4) by (metis UnCI set_append take_add)
  obtain it st1 where run:
    "fold (accumulate ndim) (take m (drop a rows)) (int (a + m) - int m, ?st0) = (it, st1)"
    by (cases "fold (accumulate ndim) (take m (drop a rows)) (int (a + m) - int m, ?st0)")
  from accumulate_rows [OF start window] have inv: "welford_inv ndim (take (a + m) rows) (it, st1)"
    unfolding run by (simp add: take_add)
  then have it: "it = int (a + m)" and mu1: "mu st1 = batch_mean ndim (take (a + m) rows)"
    and M21: "M2 st1 = scatter ndim (take (a + m) rows)"
    using assms(3) by (simp_all add: welford_inv_def)
  from accumulate_rows_frame [of ndim "take m (drop a rows)" "(int (a + m) - int m, ?st0)"]
  have frame: "cov st1 = cov st" "cov_integer st1 = cov_integer st"
    unfolding run by simp_all
  have loop: "fold (\<lambda>ii. accumulate ndim (amb ! chain_ind ! nat (int (a + m) - int m + ii)))
          (py_range 0 (int m)) (int (a + m) - int m, ?st0) = (it, st1)"
    using run window_rows [OF assms(3)] fold_map [of "accumulate ndim"
        "\<lambda>ii. rows ! nat (int (a + m) - int m + ii)" "py_range 0 (int m)"]
    by (simp add: comp_def assms(2))
  have d: "real_of_int (it - 1) \<noteq> 0" and d': "real_of_int (it - 1) = real (a + m) - 1"
    using assms(6) by (simp_all add: it)
  have N: "List.length (take (a + m) rows) = a + m" using assms(3) by simp
  have "map (map (\<lambda>v. xdiv (Fin v) (Fin (real_of_int (it - 1))))) (M2 st1) =
        map (map (\<lambda>v. Fin (v / real_of_int (it - 1)))) (M2 st1)"
    using d by simp
  also have "\<dots> = ?c"
    unfolding batch_cov_scatter N M21 d' by (simp add: comp_def)
  finally have src: "map (map (\<lambda>v. xdiv (Fin v) (Fin (real_of_int (it - 1))))) (M2 st1) = ?c" .
  have assign: "assign_all (cov_integer st1) cast (cov st1) ?c = Inr ?c"
    using assign_all_float [OF assms(8) square_batch_cov] assms(7) by (simp add: frame)
  have "\<forall>row\<in>set ?c. \<forall>x\<in>set row. finite_x x" by auto
  from svd_groups_finite [OF square_batch_cov this assms(9)]
  have svd: "first_error (map (svd_group ?c) groups) = None" .
  have "updateRecursive groups cast amb ndim (int (a + m)) (int m) chain_ind st =
          (None, st1\<lparr>cov := ?c\<rparr>)"
    unfolding updateRecursive_def Let_def loop prod.case src assign sum.case svd ..
  then show ?thesis
    using mu1 M21 frame assms(7) by simp
qed

lemma feed_windows_Suc:
  "feed_windows groups cast amb ndim mem chain_ind (Suc k) st =
     (case feed_windows groups cast amb ndim mem chain_ind k st of
        (Some x, s) \<Rightarrow> (Some x, s)
      | (None, s) \<Rightarrow> updateRecursive groups cast amb ndim (int (Suc k) * mem) mem chain_ind s)"
  by (simp add: feed_windows_def split: prod.splits option.splits)

lemma feed_windows_moments:
  fixes rows :: "real list list"
  assumes "1 < m" and "rows = amb ! chain_ind"
    and "\<not> cov_integer st" and "square ndim (cov st)"
    and "\<forall>g\<in>set groups. \<forall>i\<in>set g. i < ndim"
  shows "k * m \<le> List.length rows \<Longrightarrow>
         \<forall>x\<in>set (take (k * m) rows). List.length x = ndim \<Longrightarrow>
         fst (feed_windows groups cast amb ndim (int m) chain_ind k st) = None
       \<and> \<not> cov_integer (snd (feed_windows groups cast amb ndim (int m) chain_ind k st))
       \<and> square ndim (cov (snd (feed_windows groups cast amb ndim (int m) chain_ind k st)))
       \<and> (0 < k \<longrightarrow>
            mu (snd (feed_windows groups cast amb ndim (int m) chain_ind k st)) =
              batch_mean ndim (take (k * m) rows)
          \<and> M2 (snd (feed_windows groups cast amb ndim (int m) chain_ind k st)) =
              scatter ndim (take (k * m) rows)
          \<and> cov (snd (feed_windows groups cast amb ndim (int m) chain_ind k st)) =
              map (map Fin) (batch_cov ndim (take (k * m) rows)))"
proof (induction k)
  case 0
  show ?case using assms(3,4) by (simp add: feed_windows_def)
next
  case (Suc k)
  let ?r = "feed_windows groups cast amb ndim (int m) chain_ind k st"
  let ?st = "snd ?r"
  have len: "k * m + m \<le> List.length rows" using Suc.prems(1) by (simp add: add.commute)
  have rows: "\<forall>x\<in>set (take (k * m + m) rows). List.length x = ndim"
    using Suc.prems(2) by (simp add: add.commute)
  have "set (take (k * m) rows) \<subseteq> set (take (k * m + m) rows)"
    by (rule set_take_subset_set_take) simp
  with rows have "\<forall>x\<in>set (take (k * m) rows). List.length x = ndim" by blast
  with Suc.IH len have IH: "fst ?r = None" "\<not> cov_integer ?st" "square ndim (cov ?st)"
    "0 < k \<longrightarrow> mu ?st = batch_mean ndim (take (k * m) rows) \<and>
                M2 ?st = scatter ndim (take (k * m) rows)"
    by simp_all
  from IH(4) have before: "k * m = 0 \<or> (mu ?st = batch_mean ndim (take (k * m) rows) \<and>
                  M2 ?st = scatter ndim (take (k * m) rows))"
    by (cases "k = 0") simp_all
  from assms(1) have m: "0 < m" and big: "1 < k * m + m" by simp_all
  have step: "int (Suc k) * int m = int (k * m + m)" by (simp add: algebra_simps)
  from IH(1) have r: "?r = (None, ?st)" by (cases ?r) simp
  have next_call: "feed_windows groups cast amb ndim (int m) chain_ind (Suc k) st =
          updateRecursive groups cast amb ndim (int (k * m + m)) (int m) chain_ind ?st"
    unfolding feed_windows_Suc step by (subst r) simp
  have eq: "Suc k * m = k * m + m" by simp
  show ?case
    unfolding next_call eq
    using updateRecursive_window [OF m assms(2) len rows before big IH(2,3) assms(5), of cast]
      square_batch_cov [of ndim "take (k * m + m) rows"]
    by simp
qed


text \<open>The estimator run on four samples in two windows of two.\<close>

lemma feed_windows_example:
  "feed_windows [[0, 1]] (\<lambda>x. 0) [[[1, 2], [3, 4], [5, 9], [7, 1], [0, 0]]] 2 2 0 2
          \<lparr>M2 = [[1, 0], [0, 1]], mu = [0, 0], cov = [[Fin 1, Fin 0], [Fin 0, Fin 1]],
           cov_integer = False\<rparr>
     = (None,
        \<lparr>M2 = [[20, 2], [2, 38]], mu = [4, 4],
         cov = [[Fin (20 / 3), Fin (2 / 3)], [Fin (2 / 3), Fin (38 / 3)]],
         cov_integer = False\<rparr>)"
  by (simp add: feed_windows_def updateRecursive_def accumulate_def mean_step_def py_range_def
      outer_def mat_add_def vec_sub_def assign_all_def bcast_def svd_group_def first_error_def
      eval_nat_numeral upto.simps)

text \<open>
  C3, as the code has it. Let the cold process feed the first \<open>N = k * mem\<close> rows of the
  buffer of a chain through \<^verbatim>\<open>_updateRecursive\<close>, window by window, each row a vector of
  \<open>ndim\<close> entries, with windows of \<open>mem \<ge> 2\<close> rows, into an \<open>ndim \<times> ndim\<close> array \<^verbatim>\<open>cov\<close> of
  floats, the groups indexing below \<open>ndim\<close>. Whatever the moments held before (the first
  window resets them), no call raises, and the covariance committed by the last call is the
  batch covariance of the \<open>N\<close> rows, \<open>(\<Sum>i. (x\<^sub>i - xbar) (x\<^sub>i - xbar)\<^sup>T) / (N - 1)\<close>,
  exactly, over the reals.
\<close>

theorem updateRecursive_batch_covariance:
  assumes "1 < mem" and "0 < k"
    and "chain_ind < List.length amb"
    and "k * nat mem \<le> List.length (amb ! chain_ind)"
    and "xs = take (k * nat mem) (amb ! chain_ind)"
    and "\<forall>x\<in>set xs. List.length x = ndim"
    and "\<not> cov_integer st" and "square ndim (cov st)"
    and "\<forall>g\<in>set groups. \<forall>i\<in>set g. i < ndim"
  shows "fst (feed_windows groups cast amb ndim mem chain_ind k st) = None
       \<and> cov (snd (feed_windows groups cast amb ndim mem chain_ind k st)) =
           map (map Fin) (batch_cov ndim xs)"
proof -
  from assms(1) obtain m where mem: "mem = int m" and m: "1 < m"
    using zero_less_imp_eq_int [of mem] by auto
  have len: "k * m \<le> List.length (amb ! chain_ind)"
    and xs: "xs = take (k * m) (amb ! chain_ind)"
    using assms(4,5) by (simp_all add: mem)
  show ?thesis
    using feed_windows_moments [OF m refl assms(7,8,9) len, of cast] assms(2,6) xs
    by (simp add: mem)
qed

theorem updateRecursive_batch_covariance_witness:
  "fst (feed_windows [[0, 1]] (\<lambda>x. 0) [[[1, 2], [3, 4], [5, 9], [7, 1], [0, 0]]] 2 2 0 2
          \<lparr>M2 = [[1, 0], [0, 1]], mu = [0, 0], cov = [[Fin 1, Fin 0], [Fin 0, Fin 1]],
           cov_integer = False\<rparr>) = None
   \<and> cov (snd (feed_windows [[0, 1]] (\<lambda>x. 0) [[[1, 2], [3, 4], [5, 9], [7, 1], [0, 0]]] 2 2 0 2
          \<lparr>M2 = [[1, 0], [0, 1]], mu = [0, 0], cov = [[Fin 1, Fin 0], [Fin 0, Fin 1]],
           cov_integer = False\<rparr>))
     = [[Fin (20 / 3), Fin (2 / 3)], [Fin (2 / 3), Fin (38 / 3)]]"
  using updateRecursive_batch_covariance [of 2 2 0 "[[[1, 2], [3, 4], [5, 9], [7, 1], [0, 0]]]"
      "[[1, 2], [3, 4], [5, 9], [7, 1]]" 2
      "\<lparr>M2 = [[1, 0], [0, 1]], mu = [0, 0], cov = [[Fin 1, Fin 0], [Fin 0, Fin 1]],
        cov_integer = False\<rparr>" "[[0, 1]]" "\<lambda>x. 0"]
  by (simp add: batch_cov_def batch_mean_def square_def eval_nat_numeral)

text \<open>
  The claim as stated fails for windows of one row. The first call then ends with the
  counter \<open>it = 1\<close>: line 898 divides the zero matrix by \<open>it - 1 = 0\<close> and commits nan, the
  decomposition raises, and the second row is never read. The batch covariance of the two
  rows \<open>[1]\<close> and \<open>[3]\<close> is \<open>[[2]]\<close>.
\<close>

theorem single_row_window_raises:
  "feed_windows [[0]] (\<lambda>x. 0) [[[1], [3], [0]]] 1 1 0 2
          \<lparr>M2 = [[0]], mu = [0], cov = [[Fin 1]], cov_integer = False\<rparr>
     = (Some LinAlgError, \<lparr>M2 = [[0]], mu = [1], cov = [[NaN]], cov_integer = False\<rparr>)
   \<and> batch_cov 1 [[1], [3]] = [[2]]"
  by (simp add: feed_windows_def updateRecursive_def accumulate_def mean_step_def py_range_def
      outer_def mat_add_def vec_sub_def assign_all_def bcast_def svd_group_def first_error_def
      batch_cov_def batch_mean_def eval_nat_numeral upto.simps)

end
